theory Spec2Isabelle
  imports Complex_Main "HOL-Library.AList"
begin

text \<open>
  The message-passing core of AI-Story-Agents: the Message envelope and the in-memory
  MessageBroker (distributed/message\_broker.py), the AgentService worker wrapper
  (distributed/agent\_service.py), the DistributedOrchestrator
  (distributed/distributed\_orchestrator.py) and the in-process StoryOrchestrator
  (orchestrator/coordinator.py, with the Message of agents/base\_agent.py). Exceptions are
  values of a sum type, mutable objects are passed and returned, and what the environment
  decides (uuids, clock readings, the file system, the other threads' publishes, the
  wrapped agents) is a parameter. Strings are lists of 8-bit characters: lengths and
  slices agree with Python's on ASCII text.
\<close>

section \<open>Python values, dictionaries and exceptions\<close>

text \<open>
  Payloads are \<^verbatim>\<open>Dict[str, Any]\<close>: a dictionary is an association list with string keys,
  in insertion order; a value is one of the JSON-like shapes the repository puts into
  payloads.
\<close>

datatype pyval =
    PNone
  | PBool bool
  | PInt int
  | PStr string
  | PList "pyval list"
  | PDict "(string \<times> pyval) list"

type_synonym pydict = "(string \<times> pyval) list"

datatype error =
    KeyError string
  | TypeError string
  | AttributeError string
  | OSError string
  | RuntimeError string

text \<open>\<^verbatim>\<open>str(e)\<close>: a KeyError prints the repr of its key, the others their message.\<close>

fun str_of_error :: "error \<Rightarrow> string" where
  "str_of_error (KeyError k) = CHR 0x27 # k @ [CHR 0x27]"
| "str_of_error (TypeError s) = s"
| "str_of_error (AttributeError s) = s"
| "str_of_error (OSError s) = s"
| "str_of_error (RuntimeError s) = s"

text \<open>Python truthiness (\<^verbatim>\<open>if x\<close>, \<^verbatim>\<open>not x\<close>, \<^verbatim>\<open>x or y\<close>).\<close>

fun truthy :: "pyval \<Rightarrow> bool" where
  "truthy PNone = False"
| "truthy (PBool b) = b"
| "truthy (PInt i) = (i \<noteq> 0)"
| "truthy (PStr s) = (s \<noteq> [])"
| "truthy (PList xs) = (xs \<noteq> [])"
| "truthy (PDict d) = (d \<noteq> [])"

text \<open>\<^verbatim>\<open>d.get(k)\<close>, \<^verbatim>\<open>d.get(k, default)\<close>, \<^verbatim>\<open>d[k]\<close>, \<^verbatim>\<open>d[k] = v\<close>, \<^verbatim>\<open>{**a, **b}\<close>.\<close>

definition dict_get :: "pydict \<Rightarrow> string \<Rightarrow> pyval" where
  "dict_get d k = (case map_of d k of None \<Rightarrow> PNone | Some v \<Rightarrow> v)"

definition dict_get_default :: "pydict \<Rightarrow> string \<Rightarrow> pyval \<Rightarrow> pyval" where
  "dict_get_default d k dflt = (case map_of d k of None \<Rightarrow> dflt | Some v \<Rightarrow> v)"

definition dict_index :: "pydict \<Rightarrow> string \<Rightarrow> error + pyval" where
  "dict_index d k = (case map_of d k of None \<Rightarrow> Inl (KeyError k) | Some v \<Rightarrow> Inr v)"

definition dict_set :: "pydict \<Rightarrow> string \<Rightarrow> pyval \<Rightarrow> pydict" where
  "dict_set d k v = AList.update k v d"

definition dict_merge :: "pydict \<Rightarrow> pydict \<Rightarrow> pydict" where
  "dict_merge a b = fold (\<lambda>kv d. dict_set d (fst kv) (snd kv)) b a"

section \<open>Message (distributed/message\_broker.py)\<close>

record message =
  message_id :: string
  sender :: string
  receiver :: string
  message_type :: string
  content :: pydict
  correlation_id :: string
  timestamp :: string

text \<open>
  \<^verbatim>\<open>correlation_id or message_id\<close> with \<^verbatim>\<open>correlation_id: Optional[str]\<close>: the left
  operand is falsy when it is None or the empty string.
\<close>

definition or_message_id :: "string option \<Rightarrow> string \<Rightarrow> string" where
  "or_message_id cid mid = (case cid of None \<Rightarrow> mid | Some c \<Rightarrow> if c = [] then mid else c)"

text \<open>
  \<^verbatim>\<open>Message.__init__\<close>. The first argument is the reading of
  \<^verbatim>\<open>datetime.now().isoformat()\<close>, supplied by the environment.
\<close>

definition Message_init ::
  "string \<Rightarrow> string \<Rightarrow> string \<Rightarrow> string \<Rightarrow> string \<Rightarrow> pydict \<Rightarrow> string option \<Rightarrow> message" where
  "Message_init now mid sndr rcvr mtype cont cid =
     \<lparr> message_id = mid, sender = sndr, receiver = rcvr, message_type = mtype,
       content = cont, correlation_id = or_message_id cid mid, timestamp = now \<rparr>"

definition to_dict :: "message \<Rightarrow> pydict" where
  "to_dict m =
     [ (''message_id'', PStr (message_id m)),
       (''sender'', PStr (sender m)),
       (''receiver'', PStr (receiver m)),
       (''message_type'', PStr (message_type m)),
       (''content'', PDict (content m)),
       (''correlation_id'', PStr (correlation_id m)),
       (''timestamp'', PStr (timestamp m)) ]"

text \<open>
  \<^verbatim>\<open>data[k]\<close> for a parameter annotated \<^verbatim>\<open>str\<close> (or \<^verbatim>\<open>Dict\<close>): a missing key is a
  KeyError. Python stores a value of another type unchecked; the annotations of
  \<^verbatim>\<open>Message.__init__\<close> exclude it, and the model reports it as a TypeError.
\<close>

definition index_str :: "pydict \<Rightarrow> string \<Rightarrow> error + string" where
  "index_str d k =
     (case dict_index d k of
        Inl e \<Rightarrow> Inl e
      | Inr (PStr s) \<Rightarrow> Inr s
      | Inr _ \<Rightarrow> Inl (TypeError k))"

definition index_dict :: "pydict \<Rightarrow> string \<Rightarrow> error + pydict" where
  "index_dict d k =
     (case dict_index d k of
        Inl e \<Rightarrow> Inl e
      | Inr (PDict c) \<Rightarrow> Inr c
      | Inr _ \<Rightarrow> Inl (TypeError k))"

text \<open>\<^verbatim>\<open>data.get(k)\<close> for a parameter annotated \<^verbatim>\<open>Optional[str]\<close>.\<close>

definition get_opt_str :: "pydict \<Rightarrow> string \<Rightarrow> error + string option" where
  "get_opt_str d k =
     (case dict_get d k of
        PNone \<Rightarrow> Inr None
      | PStr s \<Rightarrow> Inr (Some s)
      | _ \<Rightarrow> Inl (TypeError k))"

text \<open>
  \<^verbatim>\<open>Message.from_dict\<close>: the arguments are evaluated in the order they are written, then
  the constructor runs, then the timestamp is overwritten by \<^verbatim>\<open>data.get('timestamp', now)\<close>.
\<close>

definition from_dict :: "string \<Rightarrow> pydict \<Rightarrow> error + message" where
  "from_dict now data =
     (case index_str data ''message_id'' of Inl e \<Rightarrow> Inl e | Inr mid \<Rightarrow>
     (case index_str data ''sender'' of Inl e \<Rightarrow> Inl e | Inr sndr \<Rightarrow>
     (case index_str data ''receiver'' of Inl e \<Rightarrow> Inl e | Inr rcvr \<Rightarrow>
     (case index_str data ''message_type'' of Inl e \<Rightarrow> Inl e | Inr mtype \<Rightarrow>
     (case index_dict data ''content'' of Inl e \<Rightarrow> Inl e | Inr cont \<Rightarrow>
     (case get_opt_str data ''correlation_id'' of Inl e \<Rightarrow> Inl e | Inr cid \<Rightarrow>
     (case dict_get_default data ''timestamp'' (PStr now) of
        PStr ts \<Rightarrow> Inr ((Message_init now mid sndr rcvr mtype cont cid) \<lparr> timestamp := ts \<rparr>)
      | _ \<Rightarrow> Inl (TypeError ''timestamp''))))))))"

subsection \<open>Message objects and their identity\<close>

text \<open>
  Neither Message class defines \<^verbatim>\<open>__eq__\<close>, so \<^verbatim>\<open>m1 == m2\<close> is Python's default
  comparison of object identity. A Message object is a reference into a store of
  allocated objects; the constructor allocates the next free address.
\<close>

type_synonym ref = nat

type_synonym message_store = "message list"

definition Message_new ::
  "string \<Rightarrow> string \<Rightarrow> string \<Rightarrow> string \<Rightarrow> string \<Rightarrow> pydict \<Rightarrow> string option
     \<Rightarrow> message_store \<Rightarrow> ref \<times> message_store" where
  "Message_new now mid sndr rcvr mtype cont cid h =
     (length h, h @ [Message_init now mid sndr rcvr mtype cont cid])"

definition deref :: "message_store \<Rightarrow> ref \<Rightarrow> message option" where
  "deref h r = (if r < length h then Some (h ! r) else None)"

definition message_eq :: "ref \<Rightarrow> ref \<Rightarrow> bool" where
  "message_eq r1 r2 = (r1 = r2)"

text \<open>
  The Message of agents/base\_agent.py: its id is built from sender, recipient and the
  creation time (\<^verbatim>\<open>stamp\<close> is the rendering of \<^verbatim>\<open>timestamp.timestamp()\<close>).
\<close>

record agent_message =
  am_sender :: string
  am_recipient :: string
  am_content :: pydict
  am_message_type :: string
  am_timestamp :: string
  am_id :: string

definition AgentMessage_init :: "string \<Rightarrow> string \<Rightarrow> string \<Rightarrow> pydict \<Rightarrow> string \<Rightarrow> agent_message" where
  "AgentMessage_init stamp sndr rcp cont mtype =
     \<lparr> am_sender = sndr, am_recipient = rcp, am_content = cont, am_message_type = mtype,
       am_timestamp = stamp, am_id = sndr @ ''_'' @ rcp @ ''_'' @ stamp \<rparr>"

type_synonym agent_message_store = "agent_message list"

definition AgentMessage_new ::
  "string \<Rightarrow> string \<Rightarrow> string \<Rightarrow> pydict \<Rightarrow> string \<Rightarrow> agent_message_store \<Rightarrow> ref \<times> agent_message_store" where
  "AgentMessage_new stamp sndr rcp cont mtype h =
     (length h, h @ [AgentMessage_init stamp sndr rcp cont mtype])"

section \<open>MessageBroker (distributed/message\_broker.py)\<close>

text \<open>
  The broker's fields. A queue is the list of its waiting messages, head first. A
  subscriber callback is named by a number; \<open>spawned\<close> records the callback threads
  \<^verbatim>\<open>publish\<close> has started. \<open>storage\<close> is the content of the directory
  \<^verbatim>\<open>storage_path\<close>: file name to the mapping dumped into it.
\<close>

record broker =
  queues :: "string \<rightharpoonup> message list"
  subscribers :: "string \<rightharpoonup> nat list"
  message_history :: "message list"
  storage_path :: string
  storage :: "string \<rightharpoonup> pydict"
  spawned :: "(nat \<times> message) list"

definition new_broker :: "string \<Rightarrow> broker" where
  "new_broker path =
     \<lparr> queues = Map.empty, subscribers = Map.empty, message_history = [],
       storage_path = path, storage = Map.empty, spawned = [] \<rparr>"

definition create_queue :: "string \<Rightarrow> broker \<Rightarrow> broker" where
  "create_queue queue_name b =
     (if queue_name \<notin> dom (queues b)
      then b \<lparr> queues := (queues b)(queue_name \<mapsto> []) \<rparr>
      else b)"

text \<open>
  The file system is the environment's: \<open>fs\<close> says, for a path and the mapping to
  dump, whether \<^verbatim>\<open>open\<close>/\<^verbatim>\<open>json.dump\<close> raise (\<open>Some e\<close>) or succeed.
  \<^verbatim>\<open>_save_message\<close> catches every exception of the write and only logs it. A write
  that raises leaves \<open>storage\<close> as it was: a file left half written is not recorded.
\<close>

type_synonym filesystem = "string \<Rightarrow> pydict \<Rightarrow> error option"

definition write_json :: "filesystem \<Rightarrow> string \<Rightarrow> pydict \<Rightarrow> (string \<rightharpoonup> pydict) \<Rightarrow> error + (string \<rightharpoonup> pydict)" where
  "write_json fs filepath data files =
     (case fs filepath data of
        Some e \<Rightarrow> Inl e
      | None \<Rightarrow> Inr (files(filepath \<mapsto> data)))"

definition save_message :: "filesystem \<Rightarrow> message \<Rightarrow> broker \<Rightarrow> error + broker" where
  "save_message fs m b =
     (let filepath = storage_path b @ ''/'' @ message_id m @ ''.json'' in
      case write_json fs filepath (to_dict m) (storage b) of
        Inr files \<Rightarrow> Inr (b \<lparr> storage := files \<rparr>)
      | Inl e \<Rightarrow> Inr b)"

definition queue_put :: "string \<Rightarrow> message \<Rightarrow> broker \<Rightarrow> error + broker" where
  "queue_put name m b =
     (case queues b name of
        None \<Rightarrow> Inl (KeyError name)
      | Some q \<Rightarrow> Inr (b \<lparr> queues := (queues b)(name \<mapsto> q @ [m]) \<rparr>))"

definition notify_subscribers :: "message \<Rightarrow> broker \<Rightarrow> broker" where
  "notify_subscribers m b =
     (case subscribers b (receiver m) of
        None \<Rightarrow> b
      | Some cbs \<Rightarrow> b \<lparr> spawned := spawned b @ map (\<lambda>cb. (cb, m)) cbs \<rparr>)"

definition publish :: "filesystem \<Rightarrow> message \<Rightarrow> broker \<Rightarrow> error + broker" where
  "publish fs m b =
     (let b1 = (if receiver m \<notin> dom (queues b) then create_queue (receiver m) b else b) in
      case queue_put (receiver m) m b1 of
        Inl e \<Rightarrow> Inl e
      | Inr b2 \<Rightarrow>
          (let b3 = b2 \<lparr> message_history := message_history b2 @ [m] \<rparr> in
           case save_message fs m b3 of
             Inl e \<Rightarrow> Inl e
           | Inr b4 \<Rightarrow> Inr (notify_subscribers m b4)))"

definition subscribe :: "string \<Rightarrow> nat \<Rightarrow> broker \<Rightarrow> broker" where
  "subscribe agent_name callback b =
     (let subs = (if agent_name \<notin> dom (subscribers b)
                  then (subscribers b)(agent_name \<mapsto> [])
                  else subscribers b)
      in b \<lparr> subscribers := subs(agent_name \<mapsto> (case subs agent_name of None \<Rightarrow> [] | Some l \<Rightarrow> l) @ [callback]) \<rparr>)"

text \<open>
  \<^verbatim>\<open>receive\<close>: the queue is created when absent; \<^verbatim>\<open>get(timeout)\<close> returns the head, or
  raises \<^verbatim>\<open>queue.Empty\<close> when nothing is there at the end of the wait, which
  \<^verbatim>\<open>receive\<close> turns into None.
\<close>

definition receive :: "string \<Rightarrow> broker \<Rightarrow> message option \<times> broker" where
  "receive agent_name b =
     (let b1 = (if agent_name \<notin> dom (queues b) then create_queue agent_name b else b) in
      case queues b1 agent_name of
        Some (m # q) \<Rightarrow> (Some m, b1 \<lparr> queues := (queues b1)(agent_name \<mapsto> q) \<rparr>)
      | _ \<Rightarrow> (None, b1))"

definition get_messages_by_correlation :: "broker \<Rightarrow> string \<Rightarrow> message list" where
  "get_messages_by_correlation b cid = filter (\<lambda>msg. correlation_id msg = cid) (message_history b)"

definition clear_queue :: "string \<Rightarrow> broker \<Rightarrow> broker" where
  "clear_queue agent_name b =
     (if agent_name \<in> dom (queues b) then b \<lparr> queues := (queues b)(agent_name \<mapsto> []) \<rparr> else b)"

text \<open>A run of the broker: the calls made on it by all participants, in the order the
  lock serialises them.\<close>

datatype broker_call =
    Publish message
  | Receive string
  | CreateQueue string
  | Subscribe string nat
  | ClearQueue string

fun broker_step :: "filesystem \<Rightarrow> broker_call \<Rightarrow> broker \<Rightarrow> error + broker" where
  "broker_step fs (Publish m) b = publish fs m b"
| "broker_step fs (Receive n) b = Inr (snd (receive n b))"
| "broker_step fs (CreateQueue n) b = Inr (create_queue n b)"
| "broker_step fs (Subscribe n cb) b = Inr (subscribe n cb b)"
| "broker_step fs (ClearQueue n) b = Inr (clear_queue n b)"

fun broker_run :: "filesystem \<Rightarrow> broker_call list \<Rightarrow> broker \<Rightarrow> error + broker" where
  "broker_run fs [] b = Inr b"
| "broker_run fs (c # cs) b =
     (case broker_step fs c b of Inl e \<Rightarrow> Inl e | Inr b' \<Rightarrow> broker_run fs cs b')"

fun published :: "broker_call list \<Rightarrow> message list" where
  "published [] = []"
| "published (Publish m # cs) = m # published cs"
| "published (_ # cs) = published cs"

text \<open>Publishes made by other participants, one after the other; a publish that raised
  would leave the broker as it was.\<close>

fun deliver :: "filesystem \<Rightarrow> message list \<Rightarrow> broker \<Rightarrow> broker" where
  "deliver fs [] b = b"
| "deliver fs (m # ms) b =
     (case publish fs m b of Inl e \<Rightarrow> deliver fs ms b | Inr b' \<Rightarrow> deliver fs ms b')"

section \<open>AgentService (distributed/agent\_service.py)\<close>

text \<open>
  The wrapped agent's \<^verbatim>\<open>execute_task\<close>: from the agent's state and the task mapping to
  a result mapping or a raised exception, and the agent's new state.
\<close>

type_synonym 's execute_task = "'s \<Rightarrow> pydict \<Rightarrow> (error + pydict) \<times> 's"

definition error_response :: "message \<Rightarrow> error \<Rightarrow> pydict" where
  "error_response msg e =
     [ (''receiver'', PStr (sender msg)),
       (''action'', PStr ''error''),
       (''error'', PStr (str_of_error e)),
       (''correlation_id'', PStr (correlation_id msg)) ]"

definition handle_message :: "'s execute_task \<Rightarrow> message \<Rightarrow> 's \<Rightarrow> pydict option \<times> 's" where
  "handle_message execute_task msg a =
     (let cont = content msg; action = dict_get cont ''action'' in
      if \<not> truthy action then (None, a)
      else if action = PStr ''create_story'' then
        (case execute_task a cont of
           (Inr result, a') \<Rightarrow>
             (Some [ (''receiver'', PStr ''IllustratorService''),
                     (''action'', PStr ''generate_illustrations''),
                     (''story_data'', PDict result),
                     (''correlation_id'', PStr (correlation_id msg)) ], a')
         | (Inl e, a') \<Rightarrow> (Some (error_response msg e), a'))
      else if action = PStr ''generate_illustrations'' then
        (case execute_task a cont of
           (Inr result, a') \<Rightarrow>
             (Some [ (''receiver'', PStr ''PublisherService''),
                     (''action'', PStr ''create_publication''),
                     (''story_data'', dict_get cont ''story_data''),
                     (''illustrations'', PDict result),
                     (''correlation_id'', PStr (correlation_id msg)) ], a')
         | (Inl e, a') \<Rightarrow> (Some (error_response msg e), a'))
      else if action = PStr ''create_publication'' then
        (case execute_task a cont of
           (Inr result, a') \<Rightarrow>
             (Some [ (''receiver'', PStr ''Orchestrator''),
                     (''action'', PStr ''complete''),
                     (''result'', PDict result),
                     (''correlation_id'', PStr (correlation_id msg)) ], a')
         | (Inl e, a') \<Rightarrow> (Some (error_response msg e), a'))
      else (None, a))"

text \<open>
  One turn of the loop of \<^verbatim>\<open>_process_messages\<close>. The environment gives, for the turn,
  the messages other participants publish before \<^verbatim>\<open>receive\<close> returns, those they
  publish while the message is handled (a task may run for minutes), the uuid for the
  response's id and the clock reading for its timestamp.
\<close>

record tick =
  arrivals :: "message list"
  meanwhile :: "message list"
  fresh_uuid :: string
  clock :: string

text \<open>
  The body of the \<^verbatim>\<open>try\<close>: the exception that left it, if any, and the state reached.
  \<^verbatim>\<open>response.get('receiver', message.sender)\<close> is a string for every response that
  \<^verbatim>\<open>_handle_message\<close> builds; another value is outside the annotation of
  \<^verbatim>\<open>Message.__init__\<close>.
\<close>

definition process_body ::
  "filesystem \<Rightarrow> 's execute_task \<Rightarrow> string \<Rightarrow> tick \<Rightarrow> broker \<times> 's \<Rightarrow> error option \<times> broker \<times> 's" where
  "process_body fs execute_task agent_name t st =
     (case receive agent_name (deliver fs (arrivals t) (fst st)) of
        (None, b1) \<Rightarrow> (None, b1, snd st)
      | (Some msg, b1) \<Rightarrow>
          (case handle_message execute_task msg (snd st) of
             (None, a1) \<Rightarrow> (None, deliver fs (meanwhile t) b1, a1)
           | (Some response, a1) \<Rightarrow>
               if response = [] then (None, deliver fs (meanwhile t) b1, a1)
               else
                 (case dict_get_default response ''receiver'' (PStr (sender msg)) of
                    PStr rcvr \<Rightarrow>
                      (case publish fs
                              (Message_init (clock t) (fresh_uuid t) agent_name rcvr ''response''
                                 response (Some (correlation_id msg)))
                              (deliver fs (meanwhile t) b1) of
                         Inl e \<Rightarrow> (Some e, deliver fs (meanwhile t) b1, a1)
                       | Inr b2 \<Rightarrow> (None, b2, a1))
                  | _ \<Rightarrow> (Some (TypeError ''receiver''), deliver fs (meanwhile t) b1, a1))))"

text \<open>
  \<^verbatim>\<open>while self.running\<close>: the flag is cleared by \<^verbatim>\<open>stop()\<close> from another thread, so
  the number of turns is the environment's (one tick per turn). An exception that leaves
  the body is caught by the loop, logged, and the loop sleeps and goes on.
\<close>

fun process_messages ::
  "filesystem \<Rightarrow> 's execute_task \<Rightarrow> string \<Rightarrow> tick list \<Rightarrow> broker \<times> 's \<Rightarrow> broker \<times> 's" where
  "process_messages fs execute_task agent_name [] st = st"
| "process_messages fs execute_task agent_name (t # ts) st =
     (case process_body fs execute_task agent_name t st of
        (None, st') \<Rightarrow> process_messages fs execute_task agent_name ts st'
      | (Some e, st') \<Rightarrow> process_messages fs execute_task agent_name ts st')"

section \<open>DistributedOrchestrator (distributed/distributed\_orchestrator.py)\<close>

record pending_task =
  pt_status :: string
  pt_start_time :: real
  pt_story_idea :: pydict

type_synonym pending_tasks = "string \<rightharpoonup> pending_task"

text \<open>\<^verbatim>\<open>x[:n]\<close>: strings and lists are sliced, every other payload value raises.\<close>

fun slice_prefix :: "pyval \<Rightarrow> nat \<Rightarrow> error + pyval" where
  "slice_prefix (PStr s) n = Inr (PStr (take n s))"
| "slice_prefix (PList xs) n = Inr (PList (take n xs))"
| "slice_prefix v n = Inl (TypeError ''slice'')"

text \<open>Decimal rendering of the timeout in the timeout message.\<close>

fun str_of_nat :: "nat \<Rightarrow> string" where
  "str_of_nat n =
     (if n < 10 then [char_of (48 + n)]
      else str_of_nat (n div 10) @ [char_of (48 + n mod 10)])"

definition str_of_int :: "int \<Rightarrow> string" where
  "str_of_int i = (if i < 0 then CHR ''-'' # str_of_nat (nat (- i)) else str_of_nat (nat i))"

text \<open>
  What the environment decides during one call of \<^verbatim>\<open>create_story\<close>: the two uuids, the clock
  readings, and, for the \<open>i\<close>-th test of the loop condition, the time read there and the
  messages other participants publish before that turn's \<^verbatim>\<open>receive\<close> returns.
\<close>

record poll_tick =
  tick_time :: real
  tick_arrivals :: "message list"

record story_env =
  correlation_uuid :: string
  request_uuid :: string
  pending_time :: real
  request_now :: string
  loop_start :: real
  schedule :: "nat \<Rightarrow> poll_tick"

type_synonym story_outcome = "(error + pydict) \<times> broker \<times> pending_tasks"

partial_function (option) poll_loop ::
  "filesystem \<Rightarrow> (nat \<Rightarrow> poll_tick) \<Rightarrow> real \<Rightarrow> int \<Rightarrow> string \<Rightarrow> nat
     \<Rightarrow> broker \<times> pending_tasks \<Rightarrow> story_outcome option" where
  "poll_loop fs sched start_time timeout cid i st =
     (if tick_time (sched i) - start_time < real_of_int timeout then
        (case receive ''Orchestrator'' (deliver fs (tick_arrivals (sched i)) (fst st)) of
           (None, b1) \<Rightarrow> poll_loop fs sched start_time timeout cid (Suc i) (b1, snd st)
         | (Some response, b1) \<Rightarrow>
             if correlation_id response = cid then
               if dict_get (content response) ''action'' = PStr ''complete'' then
                 (case dict_get_default (content response) ''result'' (PDict []) of
                    PDict result \<Rightarrow>
                      (case snd st cid of
                         None \<Rightarrow> Some (Inl (KeyError cid), b1, snd st)
                       | Some task \<Rightarrow>
                           Some (Inr (dict_set (dict_set result ''status'' (PStr ''complete''))
                                        ''correlation_id'' (PStr cid)),
                                 b1, (snd st)(cid := None)))
                  | _ \<Rightarrow> Some (Inl (TypeError ''result''), b1, snd st))
               else if dict_get (content response) ''action'' = PStr ''error'' then
                 Some (Inr [ (''status'', PStr ''error''),
                             (''message'', dict_get (content response) ''error''),
                             (''correlation_id'', PStr cid) ],
                       b1, snd st)
               else poll_loop fs sched start_time timeout cid (Suc i) (b1, snd st)
             else poll_loop fs sched start_time timeout cid (Suc i) (b1, snd st))
      else
        Some (Inr [ (''status'', PStr ''timeout''),
                    (''message'', PStr (''Story creation timed out after '' @ str_of_int timeout @ '' seconds'')),
                    (''correlation_id'', PStr cid) ],
              fst st, snd st))"

text \<open>
  \<^verbatim>\<open>DistributedOrchestrator.create_story\<close>. The log line slices
  \<^verbatim>\<open>story_idea.get('plot', '')\<close> before anything is recorded.
\<close>

definition DistributedOrchestrator_create_story ::
  "filesystem \<Rightarrow> story_env \<Rightarrow> pydict \<Rightarrow> int \<Rightarrow> broker \<times> pending_tasks \<Rightarrow> story_outcome option" where
  "DistributedOrchestrator_create_story fs env story_idea timeout st =
     (let cid = correlation_uuid env in
      case slice_prefix (dict_get_default story_idea ''plot'' (PStr [])) 100 of
        Inl e \<Rightarrow> Some (Inl e, fst st, snd st)
      | Inr plot \<Rightarrow>
          let pend = (snd st)(cid \<mapsto> \<lparr> pt_status = ''started'', pt_start_time = pending_time env,
                                       pt_story_idea = story_idea \<rparr>);
              msg = Message_init (request_now env) (request_uuid env) ''Orchestrator'' ''AuthorService''
                      ''request'' (dict_merge [(''action'', PStr ''create_story'')] story_idea) (Some cid)
          in (case publish fs msg (fst st) of
                Inl e \<Rightarrow> Some (Inl e, fst st, pend)
              | Inr b1 \<Rightarrow> poll_loop fs (schedule env) (loop_start env) timeout cid 0 (b1, pend)))"

text \<open>The status a returned mapping carries is one of the three terminal statuses.\<close>

definition terminal_status :: "pydict \<Rightarrow> bool" where
  "terminal_status res =
     (dict_get res ''status'' = PStr ''complete''
      \<or> dict_get res ''status'' = PStr ''error''
      \<or> dict_get res ''status'' = PStr ''timeout'')"

section \<open>StoryOrchestrator (orchestrator/coordinator.py)\<close>

text \<open>
  An agent's \<^verbatim>\<open>receive_message\<close>: from the agent's state and the message handed to it
  to an optional response or a raised exception, and the agent's new state. The three
  agents are parameters: what they write and draw is not the orchestrator's.
\<close>

type_synonym 's worker = "'s \<Rightarrow> agent_message \<Rightarrow> (error + agent_message option) \<times> 's"

text \<open>
  The orchestrator's agents, and a trace of the calls of \<^verbatim>\<open>receive_message\<close> it has
  made (the agent's name and the message handed over), in order. The trace is not a
  variable of the program; it is kept to say which requests were made.
\<close>

record ('a, 'i, 'p) agents =
  author_state :: 'a
  illustrator_state :: 'i
  publisher_state :: 'p
  trace :: "(string \<times> agent_message) list"

text \<open>The clock readings that go into the ids of the messages the orchestrator creates,
  and its configuration.\<close>

record orch_env =
  stamp_story :: string
  stamp_clarify :: "nat \<Rightarrow> string"
  stamp_illustrate :: string
  stamp_publish :: string
  config :: pydict

text \<open>\<^verbatim>\<open>len(x)\<close>, iteration over \<^verbatim>\<open>x\<close>, \<^verbatim>\<open>x.get\<close>/\<^verbatim>\<open>x.items\<close> on a value that must be a
  mapping, and \<^verbatim>\<open>', '.join(x)\<close>.\<close>

fun py_len :: "pyval \<Rightarrow> error + nat" where
  "py_len (PStr s) = Inr (length s)"
| "py_len (PList xs) = Inr (length xs)"
| "py_len (PDict d) = Inr (length d)"
| "py_len v = Inl (TypeError ''len'')"

fun py_iter :: "pyval \<Rightarrow> error + pyval list" where
  "py_iter (PList xs) = Inr xs"
| "py_iter (PStr s) = Inr (map (\<lambda>c. PStr [c]) s)"
| "py_iter (PDict d) = Inr (map (\<lambda>kv. PStr (fst kv)) d)"
| "py_iter v = Inl (TypeError ''iter'')"

fun as_dict :: "string \<Rightarrow> pyval \<Rightarrow> error + pydict" where
  "as_dict attr (PDict d) = Inr d"
| "as_dict attr v = Inl (AttributeError attr)"

fun join_strings :: "string \<Rightarrow> pyval list \<Rightarrow> error + string" where
  "join_strings sep [] = Inr []"
| "join_strings sep [PStr s] = Inr s"
| "join_strings sep (PStr s # x # xs) =
     (case join_strings sep (x # xs) of Inl e \<Rightarrow> Inl e | Inr r \<Rightarrow> Inr (s @ sep @ r))"
| "join_strings sep (v # xs) = Inl (TypeError ''join'')"

definition py_join :: "string \<Rightarrow> pyval \<Rightarrow> error + string" where
  "py_join sep v = (case py_iter v of Inl e \<Rightarrow> Inl e | Inr xs \<Rightarrow> join_strings sep xs)"

text \<open>\<^verbatim>\<open>description.lower()\<close> on ASCII letters, and \<^verbatim>\<open>word in text\<close>.\<close>

definition lower_char :: "char \<Rightarrow> char" where
  "lower_char c =
     (let n = (of_char c :: nat) in if 65 \<le> n \<and> n \<le> 90 then char_of (n + 32) else c)"

definition lower :: "string \<Rightarrow> string" where
  "lower s = map lower_char s"

fun starts_with :: "string \<Rightarrow> string \<Rightarrow> bool" where
  "starts_with text [] = True"
| "starts_with [] (w # ws) = False"
| "starts_with (c # cs) (w # ws) = (c = w \<and> starts_with cs ws)"

fun contains :: "string \<Rightarrow> string \<Rightarrow> bool" where
  "contains [] word = (word = [])"
| "contains (c # cs) word = (starts_with (c # cs) word \<or> contains cs word)"

definition scene_needs_clarification :: "pyval \<Rightarrow> error + bool" where
  "scene_needs_clarification scene =
     (case as_dict ''get'' scene of
        Inl e \<Rightarrow> Inl e
      | Inr sc \<Rightarrow>
          (let description = dict_get_default sc ''description'' (PStr []) in
           case py_len description of
             Inl e \<Rightarrow> Inl e
           | Inr n \<Rightarrow>
               if n < 50 then Inr True
               else
                 (case description of
                    PStr d \<Rightarrow>
                      if \<not> (contains (lower d) ''standing'' \<or> contains (lower d) ''sitting''
                              \<or> contains (lower d) ''looking'')
                      then Inr True
                      else Inr False
                  | _ \<Rightarrow> Inl (AttributeError ''lower''))))"

definition clarification_request :: "orch_env \<Rightarrow> nat \<Rightarrow> pydict \<Rightarrow> agent_message" where
  "clarification_request env i sc =
     AgentMessage_init (stamp_clarify env i) ''IllustratorAgent'' ''AuthorAgent''
       [ (''action'', PStr ''describe_scene''), (''scene_id'', dict_get sc ''id'') ] ''request''"

text \<open>
  The body of the loop over the scenes, for the scene at position \<open>i\<close>: the scene as the
  loop leaves it (Python updates the mapping in place; here the updated mapping is
  returned), the author's state and the trace. The scenes of the list are taken to be
  distinct objects, as the ones \<^verbatim>\<open>AuthorAgent\<close> builds are; the author, who holds the same
  objects, is a parameter and answers as it will.
\<close>

definition clarify_scene ::
  "orch_env \<Rightarrow> 'a worker \<Rightarrow> nat \<Rightarrow> pyval \<Rightarrow> 'a \<times> (string \<times> agent_message) list
     \<Rightarrow> (error + pyval) \<times> 'a \<times> (string \<times> agent_message) list" where
  "clarify_scene env author i scene st =
     (case scene_needs_clarification scene of
        Inl e \<Rightarrow> (Inl e, st)
      | Inr False \<Rightarrow> (Inr scene, st)
      | Inr True \<Rightarrow>
          (case as_dict ''get'' scene of
             Inl e \<Rightarrow> (Inl e, st)
           | Inr sc \<Rightarrow>
               (let clarification_msg = clarification_request env i sc;
                    tr = snd st @ [(''AuthorAgent'', clarification_msg)] in
                case author (fst st) clarification_msg of
                  (Inl e, a') \<Rightarrow> (Inl e, a', tr)
                | (Inr None, a') \<Rightarrow> (Inr scene, a', tr)
                | (Inr (Some author_response), a') \<Rightarrow>
                    (case dict_index sc ''description'' of
                       Inl e \<Rightarrow> (Inl e, a', tr)
                     | Inr old \<Rightarrow>
                         (Inr (PDict (dict_set sc ''description''
                                        (dict_get_default (am_content author_response) ''description'' old))),
                          a', tr)))))"

fun clarify_scenes ::
  "orch_env \<Rightarrow> 'a worker \<Rightarrow> nat \<Rightarrow> pyval list \<Rightarrow> 'a \<times> (string \<times> agent_message) list
     \<Rightarrow> (error + pyval list) \<times> 'a \<times> (string \<times> agent_message) list" where
  "clarify_scenes env author i [] st = (Inr [], st)"
| "clarify_scenes env author i (scene # rest) st =
     (case clarify_scene env author i scene st of
        (Inl e, st1) \<Rightarrow> (Inl e, st1)
      | (Inr scene', st1) \<Rightarrow>
          (case clarify_scenes env author (Suc i) rest st1 of
             (Inl e, st2) \<Rightarrow> (Inl e, st2)
           | (Inr rest', st2) \<Rightarrow> (Inr (scene' # rest'), st2)))"

definition error_status :: pydict where
  "error_status = [(''status'', PStr ''error'')]"

definition story_request :: "orch_env \<Rightarrow> pydict \<Rightarrow> agent_message" where
  "story_request env story_idea =
     AgentMessage_init (stamp_story env) ''Orchestrator'' ''AuthorAgent''
       [ (''action'', PStr ''create_story''),
         (''plot'', dict_get_default story_idea ''plot'' (PStr [])),
         (''themes'', dict_get_default story_idea ''themes'' (PList [])),
         (''target_age'', dict_get_default story_idea ''target_age'' (PStr ''8-12'')),
         (''length'', dict_get_default story_idea ''length'' (PStr ''short'')) ]
       ''request''"

text \<open>
  What a phase does with the agent's response: the content when its status is
  \<^verbatim>\<open>complete\<close> (the log line first takes \<^verbatim>\<open>len(response.content[key])\<close>), the mapping
  \<^verbatim>\<open>{'status': 'error'}\<close> otherwise.
\<close>

definition logged_len :: "pydict \<Rightarrow> string \<Rightarrow> error + nat" where
  "logged_len cont key =
     (case dict_index cont key of Inl e \<Rightarrow> Inl e | Inr v \<Rightarrow> py_len v)"

definition phase_story_creation ::
  "orch_env \<Rightarrow> 'a worker \<Rightarrow> pydict \<Rightarrow> ('a, 'i, 'p) agents \<Rightarrow> (error + pydict) \<times> ('a, 'i, 'p) agents" where
  "phase_story_creation env author story_idea ag =
     (let msg = story_request env story_idea;
          ag0 = ag \<lparr> trace := trace ag @ [(''AuthorAgent'', msg)] \<rparr> in
      case author (author_state ag) msg of
        (Inl e, a') \<Rightarrow> (Inl e, ag0 \<lparr> author_state := a' \<rparr>)
      | (Inr None, a') \<Rightarrow> (Inr error_status, ag0 \<lparr> author_state := a' \<rparr>)
      | (Inr (Some response), a') \<Rightarrow>
          if dict_get (am_content response) ''status'' = PStr ''complete'' then
            (case logged_len (am_content response) ''chapters'' of
               Inl e \<Rightarrow> (Inl e, ag0 \<lparr> author_state := a' \<rparr>)
             | Inr n \<Rightarrow> (Inr (am_content response), ag0 \<lparr> author_state := a' \<rparr>))
          else (Inr error_status, ag0 \<lparr> author_state := a' \<rparr>))"

definition illustration_request :: "orch_env \<Rightarrow> pyval \<Rightarrow> pyval \<Rightarrow> pyval \<Rightarrow> agent_message" where
  "illustration_request env scenes characters art_style =
     AgentMessage_init (stamp_illustrate env) ''Orchestrator'' ''IllustratorAgent''
       [ (''action'', PStr ''generate_illustrations''),
         (''scenes'', scenes),
         (''characters'', characters),
         (''art_style'', art_style) ]
       ''request''"

definition phase_illustration ::
  "orch_env \<Rightarrow> 'a worker \<Rightarrow> 'i worker \<Rightarrow> pydict \<Rightarrow> pyval \<Rightarrow> ('a, 'i, 'p) agents
     \<Rightarrow> (error + pydict) \<times> ('a, 'i, 'p) agents" where
  "phase_illustration env author illustrator story_result art_style ag =
     (let scenes = dict_get_default story_result ''illustration_scenes'' (PList []) in
      case dict_index story_result ''story'' of Inl e \<Rightarrow> (Inl e, ag) | Inr story \<Rightarrow>
     (case as_dict ''get'' story of Inl e \<Rightarrow> (Inl e, ag) | Inr story_map \<Rightarrow>
     (let characters = dict_get_default story_map ''characters'' (PList []) in
      case py_len scenes of Inl e \<Rightarrow> (Inl e, ag) | Inr n \<Rightarrow>
     (case py_iter scenes of Inl e \<Rightarrow> (Inl e, ag) | Inr elems \<Rightarrow>
     (case clarify_scenes env author 0 elems (author_state ag, trace ag) of
        (Inl e, a', tr) \<Rightarrow> (Inl e, ag \<lparr> author_state := a', trace := tr \<rparr>)
      | (Inr elems', a', tr) \<Rightarrow>
         (let scenes' = (case scenes of PList xs \<Rightarrow> PList elems' | _ \<Rightarrow> scenes);
              msg = illustration_request env scenes' characters art_style;
              ag1 = ag \<lparr> author_state := a', trace := tr @ [(''IllustratorAgent'', msg)] \<rparr> in
          case illustrator (illustrator_state ag) msg of
            (Inl e, i') \<Rightarrow> (Inl e, ag1 \<lparr> illustrator_state := i' \<rparr>)
          | (Inr None, i') \<Rightarrow> (Inr error_status, ag1 \<lparr> illustrator_state := i' \<rparr>)
          | (Inr (Some response), i') \<Rightarrow>
              if dict_get (am_content response) ''status'' = PStr ''complete'' then
                (case logged_len (am_content response) ''images'' of
                   Inl e \<Rightarrow> (Inl e, ag1 \<lparr> illustrator_state := i' \<rparr>)
                 | Inr n \<Rightarrow> (Inr (am_content response), ag1 \<lparr> illustrator_state := i' \<rparr>))
              else (Inr error_status, ag1 \<lparr> illustrator_state := i' \<rparr>)))))))"

definition publication_request :: "orch_env \<Rightarrow> pyval \<Rightarrow> pyval \<Rightarrow> pyval \<Rightarrow> agent_message" where
  "publication_request env story images title =
     AgentMessage_init (stamp_publish env) ''Orchestrator'' ''PublisherAgent''
       [ (''action'', PStr ''publish''),
         (''story'', story),
         (''images'', images),
         (''title'', title),
         (''output_dir'', dict_get_default (config env) ''output_dir'' (PStr ''output/publications'')) ]
       ''request''"

definition phase_publication ::
  "orch_env \<Rightarrow> 'p worker \<Rightarrow> pydict \<Rightarrow> pydict \<Rightarrow> pydict \<Rightarrow> ('a, 'i, 'p) agents
     \<Rightarrow> (error + pydict) \<times> ('a, 'i, 'p) agents" where
  "phase_publication env publisher story_result illustration_result story_idea ag =
     (case dict_index story_result ''story'' of Inl e \<Rightarrow> (Inl e, ag) | Inr story \<Rightarrow>
     (case dict_index illustration_result ''images'' of Inl e \<Rightarrow> (Inl e, ag) | Inr images \<Rightarrow>
     (case slice_prefix (dict_get_default story_idea ''plot'' (PStr ''Untitled Story'')) 50 of
        Inl e \<Rightarrow> (Inl e, ag) | Inr title \<Rightarrow>
     (let msg = publication_request env story images title;
          ag0 = ag \<lparr> trace := trace ag @ [(''PublisherAgent'', msg)] \<rparr> in
      case publisher (publisher_state ag) msg of
        (Inl e, p') \<Rightarrow> (Inl e, ag0 \<lparr> publisher_state := p' \<rparr>)
      | (Inr None, p') \<Rightarrow> (Inr error_status, ag0 \<lparr> publisher_state := p' \<rparr>)
      | (Inr (Some response), p') \<Rightarrow>
          if dict_get (am_content response) ''status'' = PStr ''complete'' then
            (let files = dict_get_default (am_content response) ''files'' (PDict []) in
             case py_len files of
               Inl e \<Rightarrow> (Inl e, ag0 \<lparr> publisher_state := p' \<rparr>)
             | Inr n \<Rightarrow>
                 (case as_dict ''items'' files of
                    Inl e \<Rightarrow> (Inl e, ag0 \<lparr> publisher_state := p' \<rparr>)
                  | Inr fm \<Rightarrow> (Inr (am_content response), ag0 \<lparr> publisher_state := p' \<rparr>)))
          else (Inr error_status, ag0 \<lparr> publisher_state := p' \<rparr>)))))"

text \<open>The mapping \<^verbatim>\<open>create_story\<close> returns after the three phases; its entries are
  evaluated in the order they are written.\<close>

definition assemble_result :: "pydict \<Rightarrow> pydict \<Rightarrow> pydict \<Rightarrow> pydict \<Rightarrow> error + pydict" where
  "assemble_result story_idea story_result illustration_result publication_result =
     (case dict_index story_result ''story'' of Inl e \<Rightarrow> Inl e | Inr story \<Rightarrow>
     (case dict_index illustration_result ''images'' of Inl e \<Rightarrow> Inl e | Inr images \<Rightarrow>
     (case dict_index publication_result ''files'' of Inl e \<Rightarrow> Inl e | Inr files \<Rightarrow>
     (case slice_prefix (dict_get_default story_idea ''plot'' (PStr ''Untitled'')) 50 of
        Inl e \<Rightarrow> Inl e | Inr title \<Rightarrow>
     (case logged_len story_result ''chapters'' of Inl e \<Rightarrow> Inl e | Inr chapters \<Rightarrow>
     (case logged_len illustration_result ''images'' of Inl e \<Rightarrow> Inl e | Inr nimages \<Rightarrow>
      Inr [ (''status'', PStr ''complete''),
            (''story'', story),
            (''images'', images),
            (''publications'', files),
            (''metadata'', PDict
               [ (''title'', title),
                 (''chapters'', PInt (int chapters)),
                 (''images'', PInt (int nimages)),
                 (''page_count'', dict_get_default publication_result ''page_count'' (PInt 0)) ]) ]))))))"

text \<open>
  \<^verbatim>\<open>StoryOrchestrator.create_story\<close>. No call of an agent is inside a \<^verbatim>\<open>try\<close>: an
  exception of a phase leaves \<^verbatim>\<open>create_story\<close>. The first log lines join the themes.
\<close>

definition StoryOrchestrator_create_story ::
  "orch_env \<Rightarrow> 'a worker \<Rightarrow> 'i worker \<Rightarrow> 'p worker \<Rightarrow> pydict \<Rightarrow> ('a, 'i, 'p) agents
     \<Rightarrow> (error + pydict) \<times> ('a, 'i, 'p) agents" where
  "StoryOrchestrator_create_story env author illustrator publisher story_idea ag =
     (case py_join '', '' (dict_get_default story_idea ''themes'' (PList [])) of
        Inl e \<Rightarrow> (Inl e, ag) | Inr themes \<Rightarrow>
     (case phase_story_creation env author story_idea ag of
        (Inl e, ag1) \<Rightarrow> (Inl e, ag1)
      | (Inr story_result, ag1) \<Rightarrow>
     (case dict_index story_result ''status'' of Inl e \<Rightarrow> (Inl e, ag1) | Inr st1 \<Rightarrow>
      if st1 \<noteq> PStr ''complete''
      then (Inr [(''status'', PStr ''error''), (''message'', PStr ''Story creation failed'')], ag1)
      else
     (case phase_illustration env author illustrator story_result
             (dict_get_default story_idea ''art_style'' (PStr ''children_book'')) ag1 of
        (Inl e, ag2) \<Rightarrow> (Inl e, ag2)
      | (Inr illustration_result, ag2) \<Rightarrow>
     (case dict_index illustration_result ''status'' of Inl e \<Rightarrow> (Inl e, ag2) | Inr st2 \<Rightarrow>
      if st2 \<noteq> PStr ''complete''
      then (Inr [(''status'', PStr ''error''), (''message'', PStr ''Illustration failed'')], ag2)
      else
     (case phase_publication env publisher story_result illustration_result story_idea ag2 of
        (Inl e, ag3) \<Rightarrow> (Inl e, ag3)
      | (Inr publication_result, ag3) \<Rightarrow>
          (assemble_result story_idea story_result illustration_result publication_result, ag3)))))))"

section \<open>Notions used to state the properties\<close>

text \<open>
  The static routing table as the specification words it: the action whose task has been
  executed, to the stage the completion is addressed to and the action it carries.
\<close>

definition routing_table :: "string \<Rightarrow> (string \<times> string) option" where
  "routing_table action =
     (if action = ''create_story'' then Some (''IllustratorService'', ''generate_illustrations'')
      else if action = ''generate_illustrations'' then Some (''PublisherService'', ''create_publication'')
      else if action = ''create_publication'' then Some (''Orchestrator'', ''complete'')
      else None)"

text \<open>The messages waiting in a participant's queue (none when the queue does not exist).\<close>

definition inbox :: "string \<Rightarrow> broker \<Rightarrow> message list" where
  "inbox name b = (case queues b name of None \<Rightarrow> [] | Some q \<Rightarrow> q)"

text \<open>
  A message that, if its action is \<^verbatim>\<open>complete\<close>, has no \<^verbatim>\<open>result\<close> entry or a mapping
  there, as every completion built by \<^verbatim>\<open>_handle_message\<close> from an \<^verbatim>\<open>execute_task\<close>
  result has. Messages with another action are not constrained.
\<close>

definition result_is_mapping :: "message \<Rightarrow> bool" where
  "result_is_mapping m =
     (if dict_get (content m) ''action'' = PStr ''complete''
      then (case dict_get_default (content m) ''result'' (PDict []) of PDict r \<Rightarrow> True | _ \<Rightarrow> False)
      else True)"

text \<open>
  The clarification requests a list of scenes calls for, the first scene being at
  position \<open>i\<close>: one for each scene that fails the clarity check, in order.
\<close>

fun expected_requests :: "orch_env \<Rightarrow> nat \<Rightarrow> pyval list \<Rightarrow> (string \<times> agent_message) list" where
  "expected_requests env i [] = []"
| "expected_requests env i (PDict sc # rest) =
     (if scene_needs_clarification (PDict sc) = Inr True
      then (''AuthorAgent'', clarification_request env i sc) # expected_requests env (Suc i) rest
      else expected_requests env (Suc i) rest)"
| "expected_requests env i (v # rest) = expected_requests env (Suc i) rest"

section \<open>Example runs\<close>

definition no_fs_failure :: filesystem where
  "no_fs_failure = (\<lambda>path data. None)"

definition failing_fs :: filesystem where
  "failing_fs = (\<lambda>path data. Some (OSError ''No space left on device''))"

definition story_idea_example :: pydict where
  "story_idea_example =
     [ (''plot'', PStr ''A fox finds a lantern''),
       (''themes'', PList [PStr ''courage'', PStr ''friendship'']),
       (''length'', PStr ''short'') ]"

definition orchestrator_broker :: broker where
  "orchestrator_broker = create_queue ''Orchestrator'' (new_broker ''output/messages'')"

text \<open>Two requests waiting for the author's service, and a task execution that raises on
  its first call and succeeds afterwards (the agent's state counts the calls).\<close>

definition first_request :: message where
  "first_request =
     Message_init ''t1'' ''m1'' ''Orchestrator'' ''AuthorService'' ''request''
       [(''action'', PStr ''create_story''), (''plot'', PStr ''A fox finds a lantern'')] (Some ''c1'')"

definition second_request :: message where
  "second_request =
     Message_init ''t2'' ''m2'' ''Orchestrator'' ''AuthorService'' ''request''
       [(''action'', PStr ''create_story''), (''plot'', PStr ''An owl learns to swim'')] (Some ''c2'')"

definition unknown_request :: message where
  "unknown_request =
     Message_init ''t3'' ''m3'' ''Orchestrator'' ''AuthorService'' ''request''
       [(''action'', PStr ''translate''), (''plot'', PStr ''A fox finds a lantern'')] (Some ''c3'')"

definition service_broker :: broker where
  "service_broker =
     (new_broker ''output/messages'')
       \<lparr> queues := [''AuthorService'' \<mapsto> [first_request, second_request]] \<rparr>"

definition unknown_broker :: broker where
  "unknown_broker =
     (new_broker ''output/messages'') \<lparr> queues := [''AuthorService'' \<mapsto> [unknown_request]] \<rparr>"

definition flaky_task :: "nat execute_task" where
  "flaky_task calls task =
     (if calls = 0 then (Inl (RuntimeError ''model crashed''), Suc calls)
      else (Inr [(''status'', PStr ''complete''), (''chapters'', PList [])], Suc calls))"

definition first_turn :: tick where
  "first_turn = \<lparr> arrivals = [], meanwhile = [], fresh_uuid = ''r1'', clock = ''t4'' \<rparr>"

definition second_turn :: tick where
  "second_turn = \<lparr> arrivals = [], meanwhile = [], fresh_uuid = ''r2'', clock = ''t5'' \<rparr>"

text \<open>A run of the distributed \<^verbatim>\<open>create_story\<close> in which the author's service answers
  with an error before the first \<^verbatim>\<open>receive\<close> returns.\<close>

definition error_reply :: message where
  "error_reply =
     Message_init ''t1'' ''m2'' ''AuthorService'' ''Orchestrator'' ''response''
       [ (''receiver'', PStr ''Orchestrator''), (''action'', PStr ''error''),
         (''error'', PStr ''model crashed''), (''correlation_id'', PStr ''c1'') ] (Some ''c1'')"

definition error_env :: story_env where
  "error_env =
     \<lparr> correlation_uuid = ''c1'', request_uuid = ''m1'', pending_time = 0,
       request_now = ''t0'', loop_start = 0,
       schedule = (\<lambda>i. \<lparr> tick_time = real i,
                           tick_arrivals = (if i = 0 then [error_reply] else []) \<rparr>) \<rparr>"

text \<open>Stub agents for the in-process orchestrator: a writer with three chapters and two
  scenes (the scenes as \<^verbatim>\<open>AuthorAgent._parse_scenes\<close> emits them), an illustrator with
  two images, a publisher with two files; a writer that raises; a writer whose enhanced
  description is the text the scene already has.\<close>

definition scene_example :: "string \<Rightarrow> pyval" where
  "scene_example scene_id =
     PDict [ (''id'', PStr scene_id), (''chapter'', PInt 1),
             (''description'', PStr ''Scene description...''),
             (''characters'', PList []), (''mood'', PStr ''exciting'') ]"

definition orch_env_example :: orch_env where
  "orch_env_example =
     \<lparr> stamp_story = ''100.0'', stamp_clarify = (\<lambda>i. ''101.'' @ str_of_nat i),
       stamp_illustrate = ''102.0'', stamp_publish = ''103.0'',
       config = [(''output_dir'', PStr ''output/publications'')] \<rparr>"

definition story_content :: pydict where
  "story_content =
     [ (''story'', PDict [(''characters'', PList [])]),
       (''status'', PStr ''complete''),
       (''chapters'', PList [PStr ''one'', PStr ''two'', PStr ''three'']),
       (''illustration_scenes'', PList [scene_example ''ch1_scene1'', scene_example ''ch1_scene2'']) ]"

definition stub_author :: "string \<Rightarrow> unit worker" where
  "stub_author enhanced s msg =
     (if dict_get (am_content msg) ''action'' = PStr ''create_story''
      then (Inr (Some (AgentMessage_init ''100.5'' ''AuthorAgent'' (am_sender msg) story_content ''response'')), s)
      else if dict_get (am_content msg) ''action'' = PStr ''describe_scene''
      then (Inr (Some (AgentMessage_init ''101.5'' ''AuthorAgent'' (am_sender msg)
                         [ (''scene_id'', dict_get (am_content msg) ''scene_id''),
                           (''description'', PStr enhanced) ] ''response'')), s)
      else (Inr None, s))"

definition silent_author :: "unit worker" where
  "silent_author s msg = (Inr None, s)"

definition crashing_author :: "unit worker" where
  "crashing_author s msg = (Inl (RuntimeError ''CUDA out of memory''), s)"

definition stub_illustrator :: "unit worker" where
  "stub_illustrator s msg =
     (Inr (Some (AgentMessage_init ''102.5'' ''IllustratorAgent'' (am_sender msg)
                   [ (''status'', PStr ''complete''),
                     (''images'', PList [PStr ''img1.png'', PStr ''img2.png'']) ] ''response'')), s)"

definition stub_publisher :: "unit worker" where
  "stub_publisher s msg =
     (Inr (Some (AgentMessage_init ''103.5'' ''PublisherAgent'' (am_sender msg)
                   [ (''status'', PStr ''complete''),
                     (''files'', PDict [(''pdf'', PStr ''out/story.pdf''), (''html'', PStr ''out/story.html'')]),
                     (''page_count'', PInt 12) ] ''response'')), s)"

definition idle_agents :: "(unit, unit, unit) agents" where
  "idle_agents = \<lparr> author_state = (), illustrator_state = (), publisher_state = (), trace = [] \<rparr>"

text \<open>A run in which the publisher's service answers with the completion, and two Message
  objects constructed one after the other with the same id.\<close>

definition complete_reply :: message where
  "complete_reply =
     Message_init ''t1'' ''m2'' ''PublisherService'' ''Orchestrator'' ''response''
       [ (''receiver'', PStr ''Orchestrator''), (''action'', PStr ''complete''),
         (''result'', PDict [(''status'', PStr ''complete''), (''page_count'', PInt 12)]),
         (''correlation_id'', PStr ''c1'') ] (Some ''c1'')"

definition complete_env :: story_env where
  "complete_env =
     \<lparr> correlation_uuid = ''c1'', request_uuid = ''m1'', pending_time = 0,
       request_now = ''t0'', loop_start = 0,
       schedule = (\<lambda>i. \<lparr> tick_time = real i,
                           tick_arrivals = (if i = 0 then [complete_reply] else []) \<rparr>) \<rparr>"

definition first_object :: "ref \<times> message_store" where
  "first_object = Message_new ''t1'' ''id-1'' ''Orchestrator'' ''AuthorService'' ''request'' [] None []"

definition second_object :: "ref \<times> message_store" where
  "second_object =
     Message_new ''t1'' ''id-1'' ''Orchestrator'' ''AuthorService'' ''request'' [] None (snd first_object)"

definition serialized_example :: pydict where
  "serialized_example =
     [ (''message_id'', PStr ''m7''), (''sender'', PStr ''Orchestrator''),
       (''receiver'', PStr ''AuthorService''), (''message_type'', PStr ''request''),
       (''content'', PDict [(''action'', PStr ''create_story'')]),
       (''correlation_id'', PStr []) ]"

section \<open>Lemmas about the broker\<close>

lemma publish_result:
  "publish fs m b = Inr (notify_subscribers m
      ((b \<lparr> queues := (queues b)(receiver m \<mapsto> (case queues b (receiver m) of None \<Rightarrow> [] | Some q \<Rightarrow> q) @ [m]),
            message_history := message_history b @ [m] \<rparr>)
         \<lparr> storage := (case fs (storage_path b @ ''/'' @ message_id m @ ''.json'') (to_dict m) of
                         Some e \<Rightarrow> storage b
                       | None \<Rightarrow> (storage b)(storage_path b @ ''/'' @ message_id m @ ''.json'' \<mapsto> to_dict m)) \<rparr>))"
  by (auto simp: publish_def create_queue_def queue_put_def save_message_def write_json_def Let_def dom_def
           split: option.splits)

lemma publish_facts:
  "\<exists>b'. publish fs m b = Inr b' \<and> message_history b' = message_history b @ [m]
     \<and> queues b' = (queues b)(receiver m \<mapsto> (case queues b (receiver m) of None \<Rightarrow> [] | Some q \<Rightarrow> q) @ [m])"
  by (simp add: publish_result notify_subscribers_def split: option.splits)

lemma broker_step_history:
  "\<exists>b'. broker_step fs c b = Inr b' \<and> message_history b' = message_history b @ published [c]"
  using publish_facts[of fs _ b]
  by (cases c)
     (auto simp: receive_def create_queue_def subscribe_def clear_queue_def Let_def
           split: option.splits list.splits)

lemma broker_run_history:
  "\<exists>b'. broker_run fs cs b = Inr b' \<and> message_history b' = message_history b @ published cs"
proof (induction cs arbitrary: b)
  case Nil
  then show ?case by simp
next
  case (Cons c cs)
  obtain b1 where 1: "broker_step fs c b = Inr b1"
      "message_history b1 = message_history b @ published [c]"
    using broker_step_history by blast
  obtain b2 where 2: "broker_run fs cs b1 = Inr b2"
      "message_history b2 = message_history b1 @ published cs"
    using Cons.IH by blast
  have "published (c # cs) = published [c] @ published cs" by (cases c) simp_all
  with 1 2 show ?case by simp
qed

lemma inbox_publish:
  "publish fs m b = Inr b' \<Longrightarrow> inbox name b' = inbox name b @ (if receiver m = name then [m] else [])"
  using publish_facts[of fs m b] by (auto simp: inbox_def)

lemma inbox_deliver:
  "inbox name (deliver fs ms b) = inbox name b @ filter (\<lambda>m. receiver m = name) ms"
proof (induction ms arbitrary: b)
  case Nil
  then show ?case by simp
next
  case (Cons m ms)
  obtain b' where p: "publish fs m b = Inr b'" using publish_facts by blast
  show ?case using p inbox_publish[OF p, of name] Cons.IH[of b'] by simp
qed

lemma history_deliver:
  "message_history (deliver fs ms b) = message_history b @ ms"
proof (induction ms arbitrary: b)
  case Nil
  then show ?case by simp
next
  case (Cons m ms)
  obtain b' where p: "publish fs m b = Inr b'" "message_history b' = message_history b @ [m]"
    using publish_facts by blast
  show ?case using p Cons.IH[of b'] by simp
qed

lemma receive_inbox:
  "receive name b = (r, b') \<Longrightarrow>
     (case inbox name b of [] \<Rightarrow> r = None \<and> inbox name b' = []
      | m # q \<Rightarrow> r = Some m \<and> inbox name b' = q)"
  by (auto simp: receive_def inbox_def create_queue_def Let_def dom_def
           split: option.splits list.splits if_splits)

lemma dict_get_set: "dict_get (dict_set d k v) k' = (if k' = k then v else dict_get d k')"
  by (simp add: dict_get_def dict_set_def update_conv')

section \<open>Lemmas about the worker wrapper\<close>

lemma handle_known_ok:
  assumes "dict_get (content msg) ''action'' = PStr s" "routing_table s = Some (stage, nxt)"
    and "execute_task a (content msg) = (Inr result, a')"
  shows "\<exists>resp. handle_message execute_task msg a = (Some resp, a')
           \<and> resp \<noteq> []
           \<and> dict_get resp ''receiver'' = PStr stage
           \<and> dict_get_default resp ''receiver'' (PStr (sender msg)) = PStr stage
           \<and> dict_get resp ''action'' = PStr nxt
           \<and> dict_get resp ''correlation_id'' = PStr (correlation_id msg)"
  using assms
  by (auto simp: handle_message_def routing_table_def Let_def dict_get_def dict_get_default_def
           split: if_splits)

lemma handle_known_raise:
  assumes "dict_get (content msg) ''action'' = PStr s" "routing_table s \<noteq> None"
    and "execute_task a (content msg) = (Inl e, a')"
  shows "handle_message execute_task msg a = (Some (error_response msg e), a')"
  using assms
  by (auto simp: handle_message_def routing_table_def Let_def split: if_splits)

lemma handle_unknown:
  assumes "\<forall>s. dict_get (content msg) ''action'' = PStr s \<longrightarrow> routing_table s = None"
  shows "handle_message execute_task msg a = (None, a)"
  using assms
  by (auto simp: handle_message_def routing_table_def Let_def split: if_splits)

section \<open>Lemmas about the distributed orchestrator\<close>

lemma poll_loop_returns:
  assumes late: "\<not> (tick_time (sched n) - start < real_of_int timeout)"
    and arr: "\<forall>j. list_all result_is_mapping (tick_arrivals (sched j))"
    and pend: "pend cid \<noteq> None"
  shows "i \<le> n \<Longrightarrow> list_all result_is_mapping (inbox ''Orchestrator'' b) \<Longrightarrow>
         \<exists>res b' pend'. poll_loop fs sched start timeout cid i (b, pend) = Some (Inr res, b', pend')
            \<and> terminal_status res \<and> dict_get res ''correlation_id'' = PStr cid"
proof (induction "n - i" arbitrary: i b)
  case 0
  then have "i = n" by simp
  then show ?case using late
    by (subst poll_loop.simps) (simp add: terminal_status_def dict_get_def)
next
  case (Suc k)
  show ?case
  proof (cases "tick_time (sched i) - start < real_of_int timeout")
    case False
    then show ?thesis
      by (subst poll_loop.simps) (simp add: terminal_status_def dict_get_def)
  next
    case True
    let ?b0 = "deliver fs (tick_arrivals (sched i)) b"
    obtain r b1 where rc: "receive ''Orchestrator'' ?b0 = (r, b1)"
      by (cases "receive ''Orchestrator'' ?b0")
    have inv0: "list_all result_is_mapping (inbox ''Orchestrator'' ?b0)"
      using Suc.prems(2) arr by (auto simp: inbox_deliver list_all_iff)
    have inv1: "list_all result_is_mapping (inbox ''Orchestrator'' b1)"
      using receive_inbox[OF rc] inv0 by (auto split: list.splits)
    have rim: "\<And>m. r = Some m \<Longrightarrow> result_is_mapping m"
      using receive_inbox[OF rc] inv0 by (auto split: list.splits)
    have next_ok: "\<exists>res b' pend'.
            poll_loop fs sched start timeout cid (Suc i) (b1, pend) = Some (Inr res, b', pend')
            \<and> terminal_status res \<and> dict_get res ''correlation_id'' = PStr cid"
      using Suc.hyps(1)[of "Suc i" b1] Suc.hyps(2) Suc.prems(1) inv1 by simp
    show ?thesis
    proof (cases r)
      case None
      then show ?thesis using True rc next_ok
        by (subst poll_loop.simps) simp
    next
      case (Some m)
      obtain task where task: "pend cid = Some task" using pend by blast
      have m: "result_is_mapping m" using rim Some by simp
      show ?thesis
      proof (cases "dict_get (content m) ''action'' = PStr ''complete''")
        case complete: True
        then obtain res where res: "dict_get_default (content m) ''result'' (PDict []) = PDict res"
          using m by (auto simp: result_is_mapping_def split: pyval.splits)
        show ?thesis using True rc next_ok Some task res complete
          by (subst poll_loop.simps) (simp add: terminal_status_def dict_get_set)
      next
        case other: False
        show ?thesis using True rc next_ok Some other
          by (subst poll_loop.simps) (simp add: terminal_status_def dict_get_def)
      qed
    qed
  qed
qed

section \<open>Lemmas about the in-process orchestrator\<close>

lemma short_needs_clarification:
  "map_of sc ''description'' = Some (PStr d) \<Longrightarrow> length d < 50 \<Longrightarrow>
   scene_needs_clarification (PDict sc) = Inr True"
  by (simp add: scene_needs_clarification_def dict_get_default_def)

lemma clarify_scene_short:
  assumes "map_of sc ''description'' = Some (PStr d)" "length d < 50"
  shows "clarify_scene env author i (PDict sc) (a, tr) =
      (case author a (clarification_request env i sc) of
         (Inl e, a') \<Rightarrow> (Inl e, a', tr @ [(''AuthorAgent'', clarification_request env i sc)])
       | (Inr None, a') \<Rightarrow> (Inr (PDict sc), a', tr @ [(''AuthorAgent'', clarification_request env i sc)])
       | (Inr (Some resp), a') \<Rightarrow>
           (Inr (PDict (dict_set sc ''description''
                          (dict_get_default (am_content resp) ''description'' (PStr d)))),
            a', tr @ [(''AuthorAgent'', clarification_request env i sc)]))"
  using assms short_needs_clarification[OF assms]
  by (simp add: clarify_scene_def dict_index_def Let_def split: prod.splits sum.splits option.splits)

lemma clarify_scene_trace:
  "clarify_scene env author i scene (a, tr) = (Inr scene', a', tr') \<Longrightarrow>
     tr' = tr @ expected_requests env i [scene]"
  by (cases scene)
     (auto simp: clarify_scene_def scene_needs_clarification_def Let_def
           split: sum.splits bool.splits prod.splits option.splits if_splits)

lemma expected_requests_Cons:
  "expected_requests env i (s # ss) = expected_requests env i [s] @ expected_requests env (Suc i) ss"
  by (cases s) simp_all

lemma clarify_scenes_trace:
  "clarify_scenes env author i scenes (a, tr) = (Inr scenes', a', tr') \<Longrightarrow>
     length scenes' = length scenes \<and> tr' = tr @ expected_requests env i scenes"
proof (induction scenes arbitrary: i a tr scenes')
  case Nil
  then show ?case by simp
next
  case (Cons s ss)
  from Cons.prems obtain s' a1 tr1 ss' where
    1: "clarify_scene env author i s (a, tr) = (Inr s', a1, tr1)"
    and 2: "clarify_scenes env author (Suc i) ss (a1, tr1) = (Inr ss', a', tr')"
    and 3: "scenes' = s' # ss'"
    by (auto split: prod.splits sum.splits)
  from clarify_scene_trace[OF 1] Cons.IH[OF 2] 3
  show ?case by (simp add: expected_requests_Cons[of env i s ss])
qed

lemma clarify_scenes_nth:
  assumes "clarify_scenes env author i scenes (a, tr) = (Inr scenes', a', tr')"
    and "k < length scenes" "scenes ! k = PDict sc"
    and "map_of sc ''description'' = Some (PStr d)" "length d < 50"
  shows "\<exists>a1 a2 r. author a1 (clarification_request env (i + k) sc) = (Inr r, a2)
           \<and> scenes' ! k = (case r of None \<Rightarrow> PDict sc
                             | Some resp \<Rightarrow> PDict (dict_set sc ''description''
                                  (dict_get_default (am_content resp) ''description'' (PStr d))))"
  using assms
proof (induction scenes arbitrary: i a tr scenes' k)
  case Nil
  then show ?case by simp
next
  case (Cons s ss)
  from Cons.prems(1) obtain s' a1 tr1 ss' where
    1: "clarify_scene env author i s (a, tr) = (Inr s', a1, tr1)"
    and 2: "clarify_scenes env author (Suc i) ss (a1, tr1) = (Inr ss', a', tr')"
    and 3: "scenes' = s' # ss'"
    by (auto split: prod.splits sum.splits)
  show ?case
  proof (cases k)
    case 0
    then have s: "s = PDict sc" using Cons.prems(3) by simp
    obtain r a2 where au: "author a (clarification_request env i sc) = (r, a2)"
      by (cases "author a (clarification_request env i sc)")
    from 1 s au clarify_scene_short[OF Cons.prems(4,5), of env author i a tr]
    obtain r' where "r = Inr r'"
      "s' = (case r' of None \<Rightarrow> PDict sc
                             | Some resp \<Rightarrow> PDict (dict_set sc ''description''
                                  (dict_get_default (am_content resp) ''description'' (PStr d))))"
      by (auto split: sum.splits option.splits)
    then show ?thesis using 0 3 au by auto
  next
    case (Suc j)
    then have "j < length ss" "ss ! j = PDict sc" using Cons.prems(2,3) by simp_all
    from Cons.IH[OF 2 this Cons.prems(4,5)] show ?thesis using Suc 3 by simp
  qed
qed

lemma phase_illustration_trace:
  assumes "dict_index story_result ''story'' = Inr (PDict story_map)"
    and "dict_get_default story_result ''illustration_scenes'' (PList []) = PList scenes"
    and "clarify_scenes env author 0 scenes (author_state ag, trace ag) = (Inr scenes', a', tr')"
  shows "trace (snd (phase_illustration env author illustrator story_result art_style ag))
           = tr' @ [(''IllustratorAgent'',
                     illustration_request env (PList scenes')
                       (dict_get_default story_map ''characters'' (PList [])) art_style)]"
  using assms
  by (simp add: phase_illustration_def Let_def split: prod.splits sum.splits option.splits)

lemma assemble_status:
  "assemble_result idea sr ir pr = Inr res \<Longrightarrow> dict_get res ''status'' = PStr ''complete''"
  by (auto simp: assemble_result_def dict_get_def split: sum.splits)

lemma in_process_returns_status:
  "StoryOrchestrator_create_story env author illustrator publisher story_idea ag = (Inr res, ag') \<Longrightarrow>
     dict_get res ''status'' = PStr ''complete'' \<or> dict_get res ''status'' = PStr ''error''"
  unfolding StoryOrchestrator_create_story_def
  by (auto simp: dict_get_def dest!: assemble_status split: sum.splits prod.splits if_splits)

lemma phase_story_creation_status:
  "phase_story_creation env author story_idea ag = (Inr sr, ag1) \<Longrightarrow>
     \<exists>v. dict_index sr ''status'' = Inr v \<and> dict_get sr ''status'' = v"
  by (auto simp: phase_story_creation_def Let_def error_status_def dict_index_def dict_get_def
      split: prod.splits sum.splits option.splits if_splits)

lemma in_process_story_failed:
  assumes "py_join '', '' (dict_get_default story_idea ''themes'' (PList [])) = Inr themes"
    and "phase_story_creation env author story_idea ag = (Inr story_result, ag1)"
    and "dict_get story_result ''status'' \<noteq> PStr ''complete''"
  shows "StoryOrchestrator_create_story env author illustrator publisher story_idea ag
           = (Inr [(''status'', PStr ''error''), (''message'', PStr ''Story creation failed'')], ag1)"
proof -
  have "story_result = error_status"
    using assms(2,3)
    by (auto simp: phase_story_creation_def Let_def split: prod.splits sum.splits option.splits if_splits)
  then show ?thesis using assms(1,2)
    by (simp add: StoryOrchestrator_create_story_def error_status_def dict_index_def)
qed

lemma in_process_illustration_failed:
  assumes "py_join '', '' (dict_get_default story_idea ''themes'' (PList [])) = Inr themes"
    and "phase_story_creation env author story_idea ag = (Inr story_result, ag1)"
    and "dict_get story_result ''status'' = PStr ''complete''"
    and "phase_illustration env author illustrator story_result
             (dict_get_default story_idea ''art_style'' (PStr ''children_book'')) ag1
           = (Inr illustration_result, ag2)"
    and "dict_get illustration_result ''status'' \<noteq> PStr ''complete''"
  shows "StoryOrchestrator_create_story env author illustrator publisher story_idea ag
           = (Inr [(''status'', PStr ''error''), (''message'', PStr ''Illustration failed'')], ag2)"
proof -
  have ir: "illustration_result = error_status"
    using assms(4,5)
    by (auto simp: phase_illustration_def Let_def split: prod.splits sum.splits option.splits if_splits)
  obtain v where v: "dict_index story_result ''status'' = Inr v" "dict_get story_result ''status'' = v"
    using phase_story_creation_status[OF assms(2)] by blast
  show ?thesis using assms(1,2,3,4) ir v
    by (simp add: StoryOrchestrator_create_story_def error_status_def dict_index_def)
qed

lemma in_process_author_raises:
  assumes "py_join '', '' (dict_get_default story_idea ''themes'' (PList [])) = Inr themes"
    and "author (author_state ag) (story_request env story_idea) = (Inl e, a')"
  shows "fst (StoryOrchestrator_create_story env author illustrator publisher story_idea ag) = Inl e"
  using assms
  by (simp add: StoryOrchestrator_create_story_def phase_story_creation_def Let_def)

lemma in_process_complete:
  assumes "py_join '', '' (dict_get_default story_idea ''themes'' (PList [])) = Inr themes"
    and "phase_story_creation env author story_idea ag = (Inr story_result, ag1)"
    and "dict_get story_result ''status'' = PStr ''complete''"
    and "phase_illustration env author illustrator story_result
             (dict_get_default story_idea ''art_style'' (PStr ''children_book'')) ag1
           = (Inr illustration_result, ag2)"
    and "dict_get illustration_result ''status'' = PStr ''complete''"
    and "phase_publication env publisher story_result illustration_result story_idea ag2
           = (Inr publication_result, ag3)"
    and "dict_index publication_result ''files'' = Inr files"
    and "slice_prefix (dict_get_default story_idea ''plot'' (PStr ''Untitled'')) 50 = Inr title"
  shows "\<exists>res. StoryOrchestrator_create_story env author illustrator publisher story_idea ag = (Inr res, ag3)
           \<and> dict_get res ''status'' = PStr ''complete''"
proof -
  obtain v where v: "dict_index story_result ''status'' = Inr v" "dict_get story_result ''status'' = v"
    using phase_story_creation_status[OF assms(2)] by blast
  have a: "\<exists>n. logged_len story_result ''chapters'' = Inr n"
    using assms(2,3)
    by (auto simp: phase_story_creation_def Let_def error_status_def dict_get_def
             split: prod.splits sum.splits option.splits if_splits)
  have b: "\<exists>n. logged_len illustration_result ''images'' = Inr n"
      "dict_index illustration_result ''status'' = Inr (PStr ''complete'')"
    using assms(4,5)
    by (auto simp: phase_illustration_def Let_def error_status_def dict_get_def dict_index_def
             split: prod.splits sum.splits option.splits if_splits)
  have c: "\<exists>x. dict_index illustration_result ''images'' = Inr x"
    using b(1) by (auto simp: logged_len_def split: sum.splits)
  have d: "\<exists>x. dict_index story_result ''story'' = Inr x"
    using assms(6) by (auto simp: phase_publication_def split: sum.splits)
  obtain res where r: "assemble_result story_idea story_result illustration_result publication_result = Inr res"
    using a b(1) c d assms(7,8) by (auto simp: assemble_result_def)
  show ?thesis
    using assms(1-6) v b(2) r assemble_status[OF r]
    by (simp add: StoryOrchestrator_create_story_def)
qed

section \<open>The orchestrators' results\<close>

lemma slice_prefix_default:
  "slice_prefix (dict_get_default d k (PStr x)) n = Inr p \<Longrightarrow>
     \<exists>q. slice_prefix (dict_get_default d k (PStr y)) m = Inr q"
  by (cases "map_of d k"; cases "dict_get_default d k (PStr x)")
     (auto simp: dict_get_default_def)

lemma distributed_returns:
  assumes plot: "slice_prefix (dict_get_default story_idea ''plot'' (PStr [])) 100 = Inr p"
    and waiting: "list_all result_is_mapping (inbox ''Orchestrator'' b)"
    and arriving: "\<forall>j. list_all result_is_mapping (tick_arrivals (schedule env j))"
    and late: "\<not> (tick_time (schedule env n) - loop_start env < real_of_int timeout)"
  shows "\<exists>res b' pend'.
           DistributedOrchestrator_create_story fs env story_idea timeout (b, pend) = Some (Inr res, b', pend')
           \<and> terminal_status res"
proof -
  let ?cid = "correlation_uuid env"
  let ?pend = "pend(?cid \<mapsto> \<lparr> pt_status = ''started'', pt_start_time = pending_time env,
                               pt_story_idea = story_idea \<rparr>)"
  let ?msg = "Message_init (request_now env) (request_uuid env) ''Orchestrator'' ''AuthorService''
                ''request'' (dict_merge [(''action'', PStr ''create_story'')] story_idea) (Some ?cid)"
  obtain b1 where p: "publish fs ?msg b = Inr b1" using publish_facts by blast
  have "inbox ''Orchestrator'' b1 = inbox ''Orchestrator'' b"
    using inbox_publish[OF p, of "''Orchestrator''"] by (simp add: Message_init_def)
  then have inv: "list_all result_is_mapping (inbox ''Orchestrator'' b1)" using waiting by simp
  have "?pend ?cid \<noteq> None" by simp
  then have "\<exists>res b' pend'.
      poll_loop fs (schedule env) (loop_start env) timeout ?cid 0 (b1, ?pend) = Some (Inr res, b', pend')
      \<and> terminal_status res \<and> dict_get res ''correlation_id'' = PStr ?cid"
    using poll_loop_returns[where sched = "schedule env" and n = n and start = "loop_start env"
        and timeout = timeout and pend = ?pend and cid = ?cid and i = 0 and b = b1 and fs = fs]
      late arriving inv by blast
  then obtain res b' pend' where
    "poll_loop fs (schedule env) (loop_start env) timeout ?cid 0 (b1, ?pend) = Some (Inr res, b', pend')"
    "terminal_status res"
    by auto
  then show ?thesis using plot p
    by (simp add: DistributedOrchestrator_create_story_def Let_def)
qed

text \<open>
  C1, as amended. The distributed \<^verbatim>\<open>create_story\<close>, for a task input whose plot can be
  sliced, for every message the workers deliver (error responses, progress, completions
  carrying a mapping, or nothing at all) and a clock that passes the timeout, returns a
  mapping whose status is complete, error or timeout, and raises nothing. The in-process
  \<^verbatim>\<open>create_story\<close>, for a task input whose themes can be joined, returns a mapping of status
  error when the story phase or the illustration phase does not report complete, a
  mapping of status complete when the three phases report complete and the publisher names
  its files, and no mapping of another status; it has no handler around its workers, and
  an exception raised by the writer reaches the caller.
\<close>

theorem create_story_terminal_status:
  assumes plot: "slice_prefix (dict_get_default story_idea ''plot'' (PStr [])) 100 = Inr p"
    and waiting: "list_all result_is_mapping (inbox ''Orchestrator'' b)"
    and arriving: "\<forall>j. list_all result_is_mapping (tick_arrivals (schedule env j))"
    and late: "\<not> (tick_time (schedule env n) - loop_start env < real_of_int timeout)"
    and themes: "py_join '', '' (dict_get_default story_idea ''themes'' (PList [])) = Inr themes"
  shows "(\<exists>res b' pend'.
            DistributedOrchestrator_create_story fs env story_idea timeout (b, pend) = Some (Inr res, b', pend')
            \<and> terminal_status res)
       \<and> (\<forall>res ag'.
            StoryOrchestrator_create_story oenv author illustrator publisher story_idea ag = (Inr res, ag')
            \<longrightarrow> dict_get res ''status'' = PStr ''complete'' \<or> dict_get res ''status'' = PStr ''error'')
       \<and> (\<forall>sr ag1.
            phase_story_creation oenv author story_idea ag = (Inr sr, ag1)
            \<and> dict_get sr ''status'' \<noteq> PStr ''complete''
            \<longrightarrow> StoryOrchestrator_create_story oenv author illustrator publisher story_idea ag
                  = (Inr [(''status'', PStr ''error''), (''message'', PStr ''Story creation failed'')], ag1))
       \<and> (\<forall>sr ag1 ir ag2.
            phase_story_creation oenv author story_idea ag = (Inr sr, ag1)
            \<and> dict_get sr ''status'' = PStr ''complete''
            \<and> phase_illustration oenv author illustrator sr
                 (dict_get_default story_idea ''art_style'' (PStr ''children_book'')) ag1 = (Inr ir, ag2)
            \<and> dict_get ir ''status'' \<noteq> PStr ''complete''
            \<longrightarrow> StoryOrchestrator_create_story oenv author illustrator publisher story_idea ag
                  = (Inr [(''status'', PStr ''error''), (''message'', PStr ''Illustration failed'')], ag2))
       \<and> (\<forall>sr ag1 ir ag2 pr ag3 files.
            phase_story_creation oenv author story_idea ag = (Inr sr, ag1)
            \<and> dict_get sr ''status'' = PStr ''complete''
            \<and> phase_illustration oenv author illustrator sr
                 (dict_get_default story_idea ''art_style'' (PStr ''children_book'')) ag1 = (Inr ir, ag2)
            \<and> dict_get ir ''status'' = PStr ''complete''
            \<and> phase_publication oenv publisher sr ir story_idea ag2 = (Inr pr, ag3)
            \<and> dict_index pr ''files'' = Inr files
            \<longrightarrow> (\<exists>res. StoryOrchestrator_create_story oenv author illustrator publisher story_idea ag
                          = (Inr res, ag3)
                       \<and> dict_get res ''status'' = PStr ''complete''))
       \<and> (\<forall>e a'.
            author (author_state ag) (story_request oenv story_idea) = (Inl e, a')
            \<longrightarrow> fst (StoryOrchestrator_create_story oenv author illustrator publisher story_idea ag) = Inl e)"
proof -
  obtain title where title: "slice_prefix (dict_get_default story_idea ''plot'' (PStr ''Untitled'')) 50 = Inr title"
    using slice_prefix_default[OF plot] by blast
  have 1: "\<exists>res b' pend'.
            DistributedOrchestrator_create_story fs env story_idea timeout (b, pend) = Some (Inr res, b', pend')
            \<and> terminal_status res"
    using distributed_returns[OF plot waiting arriving late] .
  have 2: "\<forall>res ag'.
            StoryOrchestrator_create_story oenv author illustrator publisher story_idea ag = (Inr res, ag')
            \<longrightarrow> dict_get res ''status'' = PStr ''complete'' \<or> dict_get res ''status'' = PStr ''error''"
    using in_process_returns_status by blast
  have 3: "\<forall>sr ag1.
            phase_story_creation oenv author story_idea ag = (Inr sr, ag1)
            \<and> dict_get sr ''status'' \<noteq> PStr ''complete''
            \<longrightarrow> StoryOrchestrator_create_story oenv author illustrator publisher story_idea ag
                  = (Inr [(''status'', PStr ''error''), (''message'', PStr ''Story creation failed'')], ag1)"
    using in_process_story_failed[OF themes] by blast
  have 4: "\<forall>sr ag1 ir ag2.
            phase_story_creation oenv author story_idea ag = (Inr sr, ag1)
            \<and> dict_get sr ''status'' = PStr ''complete''
            \<and> phase_illustration oenv author illustrator sr
                 (dict_get_default story_idea ''art_style'' (PStr ''children_book'')) ag1 = (Inr ir, ag2)
            \<and> dict_get ir ''status'' \<noteq> PStr ''complete''
            \<longrightarrow> StoryOrchestrator_create_story oenv author illustrator publisher story_idea ag
                  = (Inr [(''status'', PStr ''error''), (''message'', PStr ''Illustration failed'')], ag2)"
    using in_process_illustration_failed[OF themes] by blast
  have 5: "\<forall>sr ag1 ir ag2 pr ag3 files.
            phase_story_creation oenv author story_idea ag = (Inr sr, ag1)
            \<and> dict_get sr ''status'' = PStr ''complete''
            \<and> phase_illustration oenv author illustrator sr
                 (dict_get_default story_idea ''art_style'' (PStr ''children_book'')) ag1 = (Inr ir, ag2)
            \<and> dict_get ir ''status'' = PStr ''complete''
            \<and> phase_publication oenv publisher sr ir story_idea ag2 = (Inr pr, ag3)
            \<and> dict_index pr ''files'' = Inr files
            \<longrightarrow> (\<exists>res. StoryOrchestrator_create_story oenv author illustrator publisher story_idea ag
                          = (Inr res, ag3)
                       \<and> dict_get res ''status'' = PStr ''complete'')"
    using in_process_complete[OF themes _ _ _ _ _ _ title] by blast
  have 6: "\<forall>e a'.
            author (author_state ag) (story_request oenv story_idea) = (Inl e, a')
            \<longrightarrow> fst (StoryOrchestrator_create_story oenv author illustrator publisher story_idea ag) = Inl e"
  proof (intro allI impI)
    fix e a'
    assume "author (author_state ag) (story_request oenv story_idea) = (Inl e, a')"
    then show "fst (StoryOrchestrator_create_story oenv author illustrator publisher story_idea ag) = Inl e"
      by (rule in_process_author_raises[OF themes])
  qed
  show ?thesis using 1 2 3 4 5 6 by blast
qed

text \<open>
  C1 as stated fails for the in-process orchestrator: with a writer that raises,
  \<^verbatim>\<open>create_story\<close> returns no mapping; the writer's exception leaves it.
\<close>

theorem create_story_never_raises_counterexample:
  "fst (StoryOrchestrator_create_story orch_env_example crashing_author stub_illustrator stub_publisher
          story_idea_example idle_agents)
     = Inl (RuntimeError ''CUDA out of memory'')"
  by (simp add: StoryOrchestrator_create_story_def phase_story_creation_def crashing_author_def
        story_idea_example_def py_join_def dict_get_default_def idle_agents_def Let_def)

text \<open>
  The amended C1 on examples: the distributed run in which the author's service answers
  with an error, the in-process run with a writer that does not respond, and the
  in-process run with the three stubs.
\<close>

theorem create_story_terminal_status_witness:
  "slice_prefix (dict_get_default story_idea_example ''plot'' (PStr [])) 100 = Inr (PStr ''A fox finds a lantern'')
   \<and> list_all result_is_mapping (inbox ''Orchestrator'' orchestrator_broker)
   \<and> list_all result_is_mapping (tick_arrivals (schedule error_env 0))
   \<and> \<not> (tick_time (schedule error_env 5) - loop_start error_env < real_of_int 5)
   \<and> py_join '', '' (dict_get_default story_idea_example ''themes'' (PList [])) = Inr ''courage, friendship''
   \<and> (\<exists>res b' pend'.
         DistributedOrchestrator_create_story no_fs_failure error_env story_idea_example 5
           (orchestrator_broker, Map.empty) = Some (Inr res, b', pend')
         \<and> terminal_status res)
   \<and> fst (StoryOrchestrator_create_story orch_env_example silent_author stub_illustrator stub_publisher
             story_idea_example idle_agents)
       = Inr [(''status'', PStr ''error''), (''message'', PStr ''Story creation failed'')]
   \<and> dict_get (projr (fst (StoryOrchestrator_create_story orch_env_example
                              (stub_author ''A fox is standing under the old oak at dusk'')
                              stub_illustrator stub_publisher story_idea_example idle_agents)))
        ''status'' = PStr ''complete''"
proof -
  have plot: "slice_prefix (dict_get_default story_idea_example ''plot'' (PStr [])) 100
                = Inr (PStr ''A fox finds a lantern'')"
    by (simp add: story_idea_example_def dict_get_default_def)
  have waiting: "list_all result_is_mapping (inbox ''Orchestrator'' orchestrator_broker)"
    by (simp add: inbox_def orchestrator_broker_def create_queue_def new_broker_def)
  have arriving: "\<forall>j. list_all result_is_mapping (tick_arrivals (schedule error_env j))"
    by (simp add: error_env_def error_reply_def result_is_mapping_def Message_init_def dict_get_default_def)
  have late: "\<not> (tick_time (schedule error_env 5) - loop_start error_env < real_of_int 5)"
    by (simp add: error_env_def)
  have themes: "py_join '', '' (dict_get_default story_idea_example ''themes'' (PList []))
                  = Inr ''courage, friendship''"
    by (simp add: py_join_def story_idea_example_def dict_get_default_def)
  note main = create_story_terminal_status[OF plot waiting arriving late themes,
      where fs = no_fs_failure and pend = Map.empty and oenv = orch_env_example
        and author = silent_author and illustrator = stub_illustrator and publisher = stub_publisher
        and ag = idle_agents]
  have silent: "phase_story_creation orch_env_example silent_author story_idea_example idle_agents
                  = (Inr error_status,
                     snd (phase_story_creation orch_env_example silent_author story_idea_example idle_agents))
                \<and> dict_get error_status ''status'' \<noteq> PStr ''complete''"
    by (simp add: phase_story_creation_def silent_author_def Let_def error_status_def dict_get_def)
  have failed: "fst (StoryOrchestrator_create_story orch_env_example silent_author stub_illustrator
                       stub_publisher story_idea_example idle_agents)
                  = Inr [(''status'', PStr ''error''), (''message'', PStr ''Story creation failed'')]"
    using main silent by (metis fst_conv)
  have happy: "dict_get (projr (fst (StoryOrchestrator_create_story orch_env_example
                              (stub_author ''A fox is standing under the old oak at dusk'')
                              stub_illustrator stub_publisher story_idea_example idle_agents)))
        ''status'' = PStr ''complete''"
    by (simp add: StoryOrchestrator_create_story_def phase_story_creation_def phase_illustration_def
          phase_publication_def assemble_result_def stub_author_def stub_illustrator_def
          stub_publisher_def story_idea_example_def idle_agents_def orch_env_example_def
          story_content_def scene_example_def story_request_def illustration_request_def
          publication_request_def clarification_request_def clarify_scene_def
          scene_needs_clarification_def AgentMessage_init_def py_join_def logged_len_def
          dict_get_def dict_get_default_def dict_index_def dict_set_def Let_def)
  show ?thesis
    using plot waiting arriving late themes main failed happy by simp
qed

section \<open>The worker wrapper\<close>

text \<open>
  C2. For an incoming message whose action is known and whose task execution raises, one
  turn of the processing loop publishes exactly one message: a response addressed to the
  original sender, whose payload has action error and the exception's description, with
  the correlation id of the incoming message; no exception leaves the turn and the loop
  goes on with the following turns. (Messages carry non-empty correlation ids: every id in
  the repository is a uuid.)
\<close>

theorem wrapper_isolation:
  assumes head: "receive agent_name (deliver fs (arrivals t) b) = (Some msg, b1)"
    and known: "dict_get (content msg) ''action'' = PStr ''create_story''
                \<or> dict_get (content msg) ''action'' = PStr ''generate_illustrations''
                \<or> dict_get (content msg) ''action'' = PStr ''create_publication''"
    and raises: "execute_task a (content msg) = (Inl e, a')"
    and cid: "correlation_id msg \<noteq> []"
  shows "\<exists>r b2. process_body fs execute_task agent_name t (b, a) = (None, b2, a')
           \<and> message_history b2 = message_history b1 @ meanwhile t @ [r]
           \<and> inbox (sender msg) b2
               = inbox (sender msg) b1 @ filter (\<lambda>m. receiver m = sender msg) (meanwhile t) @ [r]
           \<and> r = \<lparr> message_id = fresh_uuid t, sender = agent_name, receiver = sender msg,
                   message_type = ''response'', content = error_response msg e,
                   correlation_id = correlation_id msg, timestamp = clock t \<rparr>
           \<and> dict_get (content r) ''action'' = PStr ''error''
           \<and> dict_get (content r) ''error'' = PStr (str_of_error e)
           \<and> process_messages fs execute_task agent_name (t # ts) (b, a)
               = process_messages fs execute_task agent_name ts (b2, a')"
proof -
  obtain s where s: "dict_get (content msg) ''action'' = PStr s" "routing_table s \<noteq> None"
    using known by (auto simp: routing_table_def)
  have h: "handle_message execute_task msg a = (Some (error_response msg e), a')"
    using handle_known_raise[of msg s execute_task a e a'] s raises by blast
  let ?r = "Message_init (clock t) (fresh_uuid t) agent_name (sender msg) ''response''
              (error_response msg e) (Some (correlation_id msg))"
  let ?bm = "deliver fs (meanwhile t) b1"
  obtain b2 where p: "publish fs ?r ?bm = Inr b2" "message_history b2 = message_history ?bm @ [?r]"
    using publish_facts by blast
  have body: "process_body fs execute_task agent_name t (b, a) = (None, b2, a')"
    using head h p(1)
    by (simp add: process_body_def error_response_def dict_get_default_def)
  have r: "?r = \<lparr> message_id = fresh_uuid t, sender = agent_name, receiver = sender msg,
                   message_type = ''response'', content = error_response msg e,
                   correlation_id = correlation_id msg, timestamp = clock t \<rparr>"
    using cid by (simp add: Message_init_def or_message_id_def)
  have c: "dict_get (content ?r) ''action'' = PStr ''error''"
          "dict_get (content ?r) ''error'' = PStr (str_of_error e)"
    by (simp_all add: Message_init_def error_response_def dict_get_def)
  have loop: "process_messages fs execute_task agent_name (t # ts) (b, a)
               = process_messages fs execute_task agent_name ts (b2, a')"
    using body by simp
  have q: "inbox (sender msg) b2
             = inbox (sender msg) b1 @ filter (\<lambda>m. receiver m = sender msg) (meanwhile t) @ [?r]"
    using inbox_publish[OF p(1), of "sender msg"]
    by (simp add: inbox_deliver Message_init_def)
  have hist: "message_history b2 = message_history b1 @ meanwhile t @ [?r]"
    using p(2) by (simp add: history_deliver)
  show ?thesis
    using body hist q r c loop by blast
qed

text \<open>
  C2 on two requests, the first failing and the second succeeding: after two turns the
  history holds the error response to the first and the routed response to the second.
\<close>

theorem wrapper_isolation_witness:
  "fst (receive ''AuthorService'' (deliver no_fs_failure (arrivals first_turn) service_broker))
     = Some first_request
   \<and> dict_get (content first_request) ''action'' = PStr ''create_story''
   \<and> flaky_task 0 (content first_request) = (Inl (RuntimeError ''model crashed''), 1)
   \<and> correlation_id first_request \<noteq> []
   \<and> message_history (fst (process_messages no_fs_failure flaky_task ''AuthorService''
                              [first_turn, second_turn] (service_broker, 0)))
       = [ \<lparr> message_id = ''r1'', sender = ''AuthorService'', receiver = ''Orchestrator'',
             message_type = ''response'',
             content = [ (''receiver'', PStr ''Orchestrator''), (''action'', PStr ''error''),
                         (''error'', PStr ''model crashed''), (''correlation_id'', PStr ''c1'') ],
             correlation_id = ''c1'', timestamp = ''t4'' \<rparr>,
           \<lparr> message_id = ''r2'', sender = ''AuthorService'', receiver = ''IllustratorService'',
             message_type = ''response'',
             content = [ (''receiver'', PStr ''IllustratorService''),
                         (''action'', PStr ''generate_illustrations''),
                         (''story_data'', PDict [(''status'', PStr ''complete''), (''chapters'', PList [])]),
                         (''correlation_id'', PStr ''c2'') ],
             correlation_id = ''c2'', timestamp = ''t5'' \<rparr> ]"
proof -
  let ?b1 = "snd (receive ''AuthorService'' (deliver no_fs_failure (arrivals first_turn) service_broker))"
  have head: "receive ''AuthorService'' (deliver no_fs_failure (arrivals first_turn) service_broker)
                = (Some first_request, ?b1)"
    by (simp add: receive_def first_turn_def service_broker_def new_broker_def Let_def)
  have known: "dict_get (content first_request) ''action'' = PStr ''create_story''
                \<or> dict_get (content first_request) ''action'' = PStr ''generate_illustrations''
                \<or> dict_get (content first_request) ''action'' = PStr ''create_publication''"
    by (simp add: first_request_def Message_init_def dict_get_def)
  have raises: "flaky_task 0 (content first_request) = (Inl (RuntimeError ''model crashed''), 1)"
    by (simp add: flaky_task_def)
  have cid: "correlation_id first_request \<noteq> []"
    by (simp add: first_request_def Message_init_def or_message_id_def)
  from wrapper_isolation[where agent_name = "''AuthorService''" and fs = no_fs_failure
        and t = first_turn and b = service_broker and msg = first_request and ?b1.0 = ?b1
        and execute_task = flaky_task and a = 0 and e = "RuntimeError ''model crashed''"
        and a' = 1 and ts = "[second_turn]", OF head known raises cid]
  obtain r b2 where
    step: "process_messages no_fs_failure flaky_task ''AuthorService'' [first_turn, second_turn] (service_broker, 0)
             = process_messages no_fs_failure flaky_task ''AuthorService'' [second_turn] (b2, 1)"
    and hist: "message_history b2 = message_history ?b1 @ meanwhile first_turn @ [r]"
    and body: "process_body no_fs_failure flaky_task ''AuthorService'' first_turn (service_broker, 0)
                 = (None, b2, 1)"
    and r: "r = \<lparr> message_id = fresh_uuid first_turn, sender = ''AuthorService'',
                  receiver = sender first_request, message_type = ''response'',
                  content = error_response first_request (RuntimeError ''model crashed''),
                  correlation_id = correlation_id first_request, timestamp = clock first_turn \<rparr>"
    by blast
  have q2: "queues b2 ''AuthorService'' = Some [second_request]"
    using body
    by (auto simp: process_body_def receive_def first_turn_def service_broker_def new_broker_def
          handle_message_def first_request_def Message_init_def or_message_id_def dict_get_def
          dict_get_default_def flaky_task_def error_response_def publish_result
          notify_subscribers_def Let_def)
  have h1: "message_history ?b1 = []"
    by (simp add: receive_def first_turn_def service_broker_def new_broker_def Let_def)
  have second: "message_history (fst (process_messages no_fs_failure flaky_task ''AuthorService'' [second_turn] (b2, 1)))
          = message_history b2 @
            [ \<lparr> message_id = ''r2'', sender = ''AuthorService'', receiver = ''IllustratorService'',
                message_type = ''response'',
                content = [ (''receiver'', PStr ''IllustratorService''),
                            (''action'', PStr ''generate_illustrations''),
                            (''story_data'', PDict [(''status'', PStr ''complete''), (''chapters'', PList [])]),
                            (''correlation_id'', PStr ''c2'') ],
                correlation_id = ''c2'', timestamp = ''t5'' \<rparr> ]"
    using q2
    by (simp add: process_body_def receive_def second_turn_def dom_def handle_message_def
          second_request_def Message_init_def or_message_id_def dict_get_def dict_get_default_def
          flaky_task_def publish_result notify_subscribers_def Let_def split: option.splits)
  have first: "message_history b2 =
          [ \<lparr> message_id = ''r1'', sender = ''AuthorService'', receiver = ''Orchestrator'',
              message_type = ''response'',
              content = [ (''receiver'', PStr ''Orchestrator''), (''action'', PStr ''error''),
                          (''error'', PStr ''model crashed''), (''correlation_id'', PStr ''c1'') ],
              correlation_id = ''c1'', timestamp = ''t4'' \<rparr> ]"
    using hist h1 r
    by (simp add: first_turn_def first_request_def Message_init_def or_message_id_def error_response_def)
  have both: "message_history (fst (process_messages no_fs_failure flaky_task ''AuthorService''
                              [first_turn, second_turn] (service_broker, 0)))
       = [ \<lparr> message_id = ''r1'', sender = ''AuthorService'', receiver = ''Orchestrator'',
             message_type = ''response'',
             content = [ (''receiver'', PStr ''Orchestrator''), (''action'', PStr ''error''),
                         (''error'', PStr ''model crashed''), (''correlation_id'', PStr ''c1'') ],
             correlation_id = ''c1'', timestamp = ''t4'' \<rparr>,
           \<lparr> message_id = ''r2'', sender = ''AuthorService'', receiver = ''IllustratorService'',
             message_type = ''response'',
             content = [ (''receiver'', PStr ''IllustratorService''),
                         (''action'', PStr ''generate_illustrations''),
                         (''story_data'', PDict [(''status'', PStr ''complete''), (''chapters'', PList [])]),
                         (''correlation_id'', PStr ''c2'') ],
             correlation_id = ''c2'', timestamp = ''t5'' \<rparr> ]"
    by (simp only: step second first append.simps)
  have rcv: "fst (receive ''AuthorService'' (deliver no_fs_failure (arrivals first_turn) service_broker))
               = Some first_request"
    by (simp add: receive_def first_turn_def service_broker_def new_broker_def Let_def)
  have act: "dict_get (content first_request) ''action'' = PStr ''create_story''"
    by (simp add: first_request_def Message_init_def dict_get_def)
  show ?thesis
    using rcv act raises cid both by (intro conjI)
qed

section \<open>The distributed orchestrator's error path\<close>

text \<open>
  C3. When the poll loop receives a message with the matching correlation id and action
  error, \<^verbatim>\<open>create_story\<close> returns status error with the carried message, but the Pending
  Task entry stays in \<^verbatim>\<open>pending_tasks\<close>; on the complete path the entry is deleted. The
  two runs differ only in the reply.
\<close>

theorem error_path_keeps_pending_entry:
  "(case DistributedOrchestrator_create_story no_fs_failure error_env story_idea_example 5
            (orchestrator_broker, Map.empty) of
      Some (Inr res, b', pend') \<Rightarrow>
        res = [ (''status'', PStr ''error''), (''message'', PStr ''model crashed''),
                (''correlation_id'', PStr ''c1'') ]
        \<and> pend' ''c1'' = Some \<lparr> pt_status = ''started'', pt_start_time = 0,
                                pt_story_idea = story_idea_example \<rparr>
    | _ \<Rightarrow> False)
   \<and> (case DistributedOrchestrator_create_story no_fs_failure complete_env story_idea_example 5
            (orchestrator_broker, Map.empty) of
      Some (Inr res, b', pend') \<Rightarrow>
        res = [ (''status'', PStr ''complete''), (''page_count'', PInt 12),
                (''correlation_id'', PStr ''c1'') ]
        \<and> pend' ''c1'' = None
    | _ \<Rightarrow> False)"
  by (simp add: DistributedOrchestrator_create_story_def poll_loop.simps error_env_def error_reply_def
        complete_env_def complete_reply_def no_fs_failure_def story_idea_example_def
        orchestrator_broker_def new_broker_def create_queue_def Message_init_def or_message_id_def
        dict_merge_def dict_set_def dict_get_def dict_get_default_def publish_result
        notify_subscribers_def receive_def Let_def)

section \<open>Dispatch\<close>

text \<open>
  C4. The dispatch of the worker wrapper equals the static routing table. For a message
  whose action is in the table and whose task execution returns a result, the wrapper
  executes the task and publishes one response addressed to the table's next stage,
  carrying the table's next action and the correlation id of the incoming message (a
  non-empty one, as every message built from a uuid has)
  (\<^verbatim>\<open>create_story\<close> to the illustration stage with \<^verbatim>\<open>generate_illustrations\<close>,
  \<^verbatim>\<open>generate_illustrations\<close> to the publication stage with \<^verbatim>\<open>create_publication\<close>,
  \<^verbatim>\<open>create_publication\<close> to the Orchestrator with \<^verbatim>\<open>complete\<close>). For an action that
  is missing or not in the table it executes nothing and publishes nothing.
\<close>

theorem dispatch_equals_routing_table:
  assumes head: "receive agent_name (deliver fs (arrivals t) b) = (Some msg, b1)"
    and cid: "correlation_id msg \<noteq> []"
  shows "routing_table ''create_story'' = Some (''IllustratorService'', ''generate_illustrations'')
       \<and> routing_table ''generate_illustrations'' = Some (''PublisherService'', ''create_publication'')
       \<and> routing_table ''create_publication'' = Some (''Orchestrator'', ''complete'')
       \<and> (\<forall>s stage nxt result a'.
            dict_get (content msg) ''action'' = PStr s \<and> routing_table s = Some (stage, nxt)
            \<and> execute_task a (content msg) = (Inr result, a')
            \<longrightarrow> (\<exists>resp r b2.
                   handle_message execute_task msg a = (Some resp, a')
                 \<and> dict_get resp ''receiver'' = PStr stage
                 \<and> dict_get resp ''action'' = PStr nxt
                 \<and> dict_get resp ''correlation_id'' = PStr (correlation_id msg)
                 \<and> process_body fs execute_task agent_name t (b, a) = (None, b2, a')
                 \<and> message_history b2 = message_history b1 @ meanwhile t @ [r]
                 \<and> inbox stage b2 = inbox stage b1 @ filter (\<lambda>m. receiver m = stage) (meanwhile t) @ [r]
                 \<and> r = \<lparr> message_id = fresh_uuid t, sender = agent_name, receiver = stage,
                         message_type = ''response'', content = resp,
                         correlation_id = correlation_id msg, timestamp = clock t \<rparr>))
       \<and> ((\<forall>s. dict_get (content msg) ''action'' = PStr s \<longrightarrow> routing_table s = None)
            \<longrightarrow> handle_message execute_task msg a = (None, a)
              \<and> process_body fs execute_task agent_name t (b, a)
                  = (None, deliver fs (meanwhile t) b1, a))"
proof (intro conjI allI impI)
  show "routing_table ''create_story'' = Some (''IllustratorService'', ''generate_illustrations'')"
    by (simp add: routing_table_def)
  show "routing_table ''generate_illustrations'' = Some (''PublisherService'', ''create_publication'')"
    by (simp add: routing_table_def)
  show "routing_table ''create_publication'' = Some (''Orchestrator'', ''complete'')"
    by (simp add: routing_table_def)
next
  fix s stage nxt result a'
  assume A: "dict_get (content msg) ''action'' = PStr s \<and> routing_table s = Some (stage, nxt)
            \<and> execute_task a (content msg) = (Inr result, a')"
  then obtain resp where h: "handle_message execute_task msg a = (Some resp, a')" "resp \<noteq> []"
      "dict_get resp ''receiver'' = PStr stage"
      "dict_get_default resp ''receiver'' (PStr (sender msg)) = PStr stage"
      "dict_get resp ''action'' = PStr nxt"
      "dict_get resp ''correlation_id'' = PStr (correlation_id msg)"
    using handle_known_ok[of msg s stage nxt execute_task a result a'] by blast
  let ?r = "Message_init (clock t) (fresh_uuid t) agent_name stage ''response'' resp (Some (correlation_id msg))"
  let ?bm = "deliver fs (meanwhile t) b1"
  obtain b2 where p: "publish fs ?r ?bm = Inr b2" "message_history b2 = message_history ?bm @ [?r]"
    using publish_facts by blast
  have body: "process_body fs execute_task agent_name t (b, a) = (None, b2, a')"
    using head h(1,2,4) p(1) by (simp add: process_body_def)
  have r: "?r = \<lparr> message_id = fresh_uuid t, sender = agent_name, receiver = stage,
                   message_type = ''response'', content = resp,
                   correlation_id = correlation_id msg, timestamp = clock t \<rparr>"
    using cid by (simp add: Message_init_def or_message_id_def)
  have q: "inbox stage b2 = inbox stage b1 @ filter (\<lambda>m. receiver m = stage) (meanwhile t) @ [?r]"
    using inbox_publish[OF p(1), of stage] by (simp add: inbox_deliver Message_init_def)
  have hist: "message_history b2 = message_history b1 @ meanwhile t @ [?r]"
    using p(2) by (simp add: history_deliver)
  show "\<exists>resp r b2.
                   handle_message execute_task msg a = (Some resp, a')
                 \<and> dict_get resp ''receiver'' = PStr stage
                 \<and> dict_get resp ''action'' = PStr nxt
                 \<and> dict_get resp ''correlation_id'' = PStr (correlation_id msg)
                 \<and> process_body fs execute_task agent_name t (b, a) = (None, b2, a')
                 \<and> message_history b2 = message_history b1 @ meanwhile t @ [r]
                 \<and> inbox stage b2 = inbox stage b1 @ filter (\<lambda>m. receiver m = stage) (meanwhile t) @ [r]
                 \<and> r = \<lparr> message_id = fresh_uuid t, sender = agent_name, receiver = stage,
                         message_type = ''response'', content = resp,
                         correlation_id = correlation_id msg, timestamp = clock t \<rparr>"
    using h(1,3,5,6) body hist q r by blast
next
  assume U: "\<forall>s. dict_get (content msg) ''action'' = PStr s \<longrightarrow> routing_table s = None"
  show "handle_message execute_task msg a = (None, a)"
    using handle_unknown[OF U] .
  then show "process_body fs execute_task agent_name t (b, a) = (None, deliver fs (meanwhile t) b1, a)"
    using head by (simp add: process_body_def)
qed

text \<open>
  C4 on a \<^verbatim>\<open>create_story\<close> request whose task succeeds (the response goes to the
  illustration stage) and on a request with an action outside the table (nothing is
  executed or published).
\<close>

theorem dispatch_equals_routing_table_witness:
  "fst (receive ''AuthorService'' (deliver no_fs_failure (arrivals second_turn) service_broker))
     = Some first_request
   \<and> correlation_id first_request = ''c1''
   \<and> flaky_task 1 (content first_request)
       = (Inr [(''status'', PStr ''complete''), (''chapters'', PList [])], 2)
   \<and> handle_message flaky_task first_request 1
       = (Some [ (''receiver'', PStr ''IllustratorService''),
                 (''action'', PStr ''generate_illustrations''),
                 (''story_data'', PDict [(''status'', PStr ''complete''), (''chapters'', PList [])]),
                 (''correlation_id'', PStr ''c1'') ], 2)
   \<and> message_history (fst (snd (process_body no_fs_failure flaky_task ''AuthorService'' second_turn
                                   (service_broker, 1))))
       = [ \<lparr> message_id = ''r2'', sender = ''AuthorService'', receiver = ''IllustratorService'',
             message_type = ''response'',
             content = [ (''receiver'', PStr ''IllustratorService''),
                         (''action'', PStr ''generate_illustrations''),
                         (''story_data'', PDict [(''status'', PStr ''complete''), (''chapters'', PList [])]),
                         (''correlation_id'', PStr ''c1'') ],
             correlation_id = ''c1'', timestamp = ''t5'' \<rparr> ]
   \<and> fst (receive ''AuthorService'' (deliver no_fs_failure (arrivals first_turn) unknown_broker))
       = Some unknown_request
   \<and> dict_get (content unknown_request) ''action'' = PStr ''translate''
   \<and> routing_table ''translate'' = None
   \<and> handle_message flaky_task unknown_request 0 = (None, 0)
   \<and> message_history (fst (snd (process_body no_fs_failure flaky_task ''AuthorService'' first_turn
                                   (unknown_broker, 0)))) = []"
proof -
  let ?b1 = "snd (receive ''AuthorService'' (deliver no_fs_failure (arrivals second_turn) service_broker))"
  let ?u1 = "snd (receive ''AuthorService'' (deliver no_fs_failure (arrivals first_turn) unknown_broker))"
  have head: "receive ''AuthorService'' (deliver no_fs_failure (arrivals second_turn) service_broker)
                = (Some first_request, ?b1)"
    by (simp add: receive_def second_turn_def service_broker_def new_broker_def Let_def)
  have cid: "correlation_id first_request \<noteq> []" and cid1: "correlation_id first_request = ''c1''"
    by (simp_all add: first_request_def Message_init_def or_message_id_def)
  have act: "dict_get (content first_request) ''action'' = PStr ''create_story''"
    by (simp add: first_request_def Message_init_def dict_get_def)
  have ok: "flaky_task 1 (content first_request)
              = (Inr [(''status'', PStr ''complete''), (''chapters'', PList [])], 2)"
    by (simp add: flaky_task_def)
  have rt: "routing_table ''create_story'' = Some (''IllustratorService'', ''generate_illustrations'')"
    by (simp add: routing_table_def)
  note known = dispatch_equals_routing_table[where agent_name = "''AuthorService''"
      and fs = no_fs_failure and t = second_turn and b = service_broker and msg = first_request
      and ?b1.0 = ?b1 and execute_task = flaky_task and a = 1, OF head cid]
  from known act rt ok
  obtain resp r b2 where
    k: "handle_message flaky_task first_request 1 = (Some resp, 2)"
       "dict_get resp ''receiver'' = PStr ''IllustratorService''"
       "process_body no_fs_failure flaky_task ''AuthorService'' second_turn (service_broker, 1) = (None, b2, 2)"
       "message_history b2 = message_history ?b1 @ meanwhile second_turn @ [r]"
       "r = \<lparr> message_id = fresh_uuid second_turn, sender = ''AuthorService'',
               receiver = ''IllustratorService'', message_type = ''response'', content = resp,
               correlation_id = correlation_id first_request, timestamp = clock second_turn \<rparr>"
    by blast
  have resp: "handle_message flaky_task first_request 1
       = (Some [ (''receiver'', PStr ''IllustratorService''),
                 (''action'', PStr ''generate_illustrations''),
                 (''story_data'', PDict [(''status'', PStr ''complete''), (''chapters'', PList [])]),
                 (''correlation_id'', PStr ''c1'') ], 2)"
    by (simp add: handle_message_def first_request_def Message_init_def or_message_id_def
          dict_get_def flaky_task_def Let_def)
  have h1: "message_history ?b1 = []"
    by (simp add: receive_def second_turn_def service_broker_def new_broker_def Let_def)
  have hist: "message_history (fst (snd (process_body no_fs_failure flaky_task ''AuthorService''
                                           second_turn (service_broker, 1))))
       = [ \<lparr> message_id = ''r2'', sender = ''AuthorService'', receiver = ''IllustratorService'',
             message_type = ''response'',
             content = [ (''receiver'', PStr ''IllustratorService''),
                         (''action'', PStr ''generate_illustrations''),
                         (''story_data'', PDict [(''status'', PStr ''complete''), (''chapters'', PList [])]),
                         (''correlation_id'', PStr ''c1'') ],
             correlation_id = ''c1'', timestamp = ''t5'' \<rparr> ]"
    using k resp h1 cid1 by (simp add: second_turn_def)
  have uhead: "receive ''AuthorService'' (deliver no_fs_failure (arrivals first_turn) unknown_broker)
                = (Some unknown_request, ?u1)"
    by (simp add: receive_def first_turn_def unknown_broker_def new_broker_def Let_def)
  have ucid: "correlation_id unknown_request \<noteq> []"
    by (simp add: unknown_request_def Message_init_def or_message_id_def)
  have uact: "dict_get (content unknown_request) ''action'' = PStr ''translate''"
    by (simp add: unknown_request_def Message_init_def dict_get_def)
  have urt: "routing_table ''translate'' = None"
    by (simp add: routing_table_def)
  note unknown = dispatch_equals_routing_table[where agent_name = "''AuthorService''"
      and fs = no_fs_failure and t = first_turn and b = unknown_broker and msg = unknown_request
      and ?b1.0 = ?u1 and execute_task = flaky_task and a = 0, OF uhead ucid]
  have u: "handle_message flaky_task unknown_request 0 = (None, 0)
           \<and> process_body no_fs_failure flaky_task ''AuthorService'' first_turn (unknown_broker, 0)
               = (None, deliver no_fs_failure (meanwhile first_turn) ?u1, 0)"
    using unknown uact urt by simp
  have uh: "message_history ?u1 = []"
    by (simp add: receive_def first_turn_def unknown_broker_def new_broker_def Let_def)
  have rcv: "fst (receive ''AuthorService'' (deliver no_fs_failure (arrivals second_turn) service_broker))
               = Some first_request"
    by (simp add: receive_def second_turn_def service_broker_def new_broker_def Let_def)
  have urcv: "fst (receive ''AuthorService'' (deliver no_fs_failure (arrivals first_turn) unknown_broker))
               = Some unknown_request"
    by (simp add: receive_def first_turn_def unknown_broker_def new_broker_def Let_def)
  have uhist: "message_history (fst (snd (process_body no_fs_failure flaky_task ''AuthorService''
                                            first_turn (unknown_broker, 0)))) = []"
    using u uh by (simp add: first_turn_def)
  show ?thesis
    using rcv cid1 ok resp hist urcv uact urt u uhist by (intro conjI) simp_all
qed

section \<open>The broker\<close>

text \<open>
  C5. After any run of broker calls (publishes by any participants, for any correlation
  ids, mixed with receives, queue creations, subscriptions and clearings),
  \<^verbatim>\<open>get_messages_by_correlation c\<close> returns exactly the messages published with
  correlation id \<open>c\<close>, in publish order (after those of the history the run started
  from), and every message it returns has correlation id \<open>c\<close>.
\<close>

theorem correlation_grouping:
  "\<exists>b'. broker_run fs cs b = Inr b'
     \<and> get_messages_by_correlation b' c
         = filter (\<lambda>msg. correlation_id msg = c) (message_history b @ published cs)
     \<and> list_all (\<lambda>msg. correlation_id msg = c) (get_messages_by_correlation b' c)"
  using broker_run_history[of fs cs b]
  by (auto simp: get_messages_by_correlation_def list_all_iff)

text \<open>
  C6. When the write of the message's file raises, \<^verbatim>\<open>publish\<close> still returns normally,
  and the queues, the history and the started subscriber callbacks are those of the
  publish whose write succeeds: the message is at the tail of the receiver's queue and at
  the end of the history.
\<close>

theorem publish_survives_persistence_failure:
  assumes "fs_fail (storage_path b @ ''/'' @ message_id m @ ''.json'') (to_dict m) = Some e"
    and "fs_ok (storage_path b @ ''/'' @ message_id m @ ''.json'') (to_dict m) = None"
  shows "\<exists>b1 b2. publish fs_fail m b = Inr b1 \<and> publish fs_ok m b = Inr b2
           \<and> queues b1 = queues b2
           \<and> message_history b1 = message_history b2
           \<and> spawned b1 = spawned b2
           \<and> queues b1 (receiver m) = Some (inbox (receiver m) b @ [m])
           \<and> message_history b1 = message_history b @ [m]"
  using assms by (simp add: publish_result notify_subscribers_def inbox_def split: option.splits)

text \<open>C6 on a first publish to the author's service, with a file system that is full and
  one that is not: same queue and history, and only the second leaves a file.\<close>

theorem publish_survives_persistence_failure_witness:
  "failing_fs (storage_path orchestrator_broker @ ''/'' @ message_id first_request @ ''.json'')
      (to_dict first_request) = Some (OSError ''No space left on device'')
   \<and> no_fs_failure (storage_path orchestrator_broker @ ''/'' @ message_id first_request @ ''.json'')
      (to_dict first_request) = None
   \<and> (\<exists>b1 b2. publish failing_fs first_request orchestrator_broker = Inr b1
         \<and> publish no_fs_failure first_request orchestrator_broker = Inr b2
         \<and> queues b1 = queues b2
         \<and> message_history b1 = message_history b2
         \<and> queues b1 ''AuthorService'' = Some [first_request]
         \<and> message_history b1 = [first_request]
         \<and> storage b1 = Map.empty
         \<and> storage b2 ''output/messages/m1.json'' = Some (to_dict first_request))"
proof -
  have f: "failing_fs (storage_path orchestrator_broker @ ''/'' @ message_id first_request @ ''.json'')
      (to_dict first_request) = Some (OSError ''No space left on device'')"
    by (simp add: failing_fs_def)
  have s: "no_fs_failure (storage_path orchestrator_broker @ ''/'' @ message_id first_request @ ''.json'')
      (to_dict first_request) = None"
    by (simp add: no_fs_failure_def)
  from publish_survives_persistence_failure[where fs_fail = failing_fs and fs_ok = no_fs_failure
        and b = orchestrator_broker and m = first_request
        and e = "OSError ''No space left on device''", OF f s]
  obtain b1 b2 where p: "publish failing_fs first_request orchestrator_broker = Inr b1"
      "publish no_fs_failure first_request orchestrator_broker = Inr b2"
      "queues b1 = queues b2" "message_history b1 = message_history b2"
      "queues b1 (receiver first_request) = Some (inbox (receiver first_request) orchestrator_broker @ [first_request])"
      "message_history b1 = message_history orchestrator_broker @ [first_request]"
    by blast
  have q: "queues b1 ''AuthorService'' = Some [first_request]"
    using p(5) by (simp add: first_request_def Message_init_def inbox_def orchestrator_broker_def
        create_queue_def new_broker_def)
  have h: "message_history b1 = [first_request]"
    using p(6) by (simp add: orchestrator_broker_def create_queue_def new_broker_def)
  have st1: "storage b1 = Map.empty"
    using p(1) by (auto simp: publish_result notify_subscribers_def failing_fs_def
        orchestrator_broker_def create_queue_def new_broker_def split: option.splits)
  have st2: "storage b2 ''output/messages/m1.json'' = Some (to_dict first_request)"
    using p(2) by (auto simp: publish_result notify_subscribers_def no_fs_failure_def
        orchestrator_broker_def create_queue_def new_broker_def first_request_def Message_init_def
        split: option.splits)
  show ?thesis using f s p(1-4) q h st1 st2 by blast
qed

text \<open>
  C7. \<^verbatim>\<open>create_queue\<close> is idempotent: a second call changes nothing, the name has one
  queue, holding what it held before the first call (nothing if it did not exist), no
  other name gains or loses a queue, and a call for a name whose queue holds messages
  leaves the broker as it is.
\<close>

theorem create_queue_idempotent:
  "create_queue n (create_queue n b) = create_queue n b
   \<and> queues (create_queue n (create_queue n b)) n = Some (inbox n b)
   \<and> dom (queues (create_queue n (create_queue n b))) = insert n (dom (queues b))
   \<and> create_queue n (b \<lparr> queues := (queues b)(n \<mapsto> q) \<rparr>) = b \<lparr> queues := (queues b)(n \<mapsto> q) \<rparr>"
  by (auto simp: create_queue_def dom_def inbox_def split: option.splits)

section \<open>The clarification round trip\<close>

lemma expected_requests_append:
  "expected_requests env i (xs @ ys)
     = expected_requests env i xs @ expected_requests env (i + length xs) ys"
proof (induction xs arbitrary: i)
  case Nil
  then show ?case by simp
next
  case (Cons x xs)
  show ?case
    using Cons.IH[of "Suc i"]
    by (simp add: expected_requests_Cons[of env i x "xs @ ys"] expected_requests_Cons[of env i x xs])
qed

text \<open>
  C8 as stated fails: the description the writer returns replaces the scene's
  description, but nothing makes it differ from the original. With a writer whose
  enhanced description is the text the scenes already have, each scene is asked about
  once and the illustrator is handed the scenes it would have been handed without the
  round trip.
\<close>

theorem clarification_changes_description_counterexample:
  "scene_needs_clarification (scene_example ''ch1_scene1'') = Inr True
   \<and> fst (clarify_scenes orch_env_example (stub_author ''Scene description...'') 0
            [scene_example ''ch1_scene1'', scene_example ''ch1_scene2''] ((), []))
       = Inr [scene_example ''ch1_scene1'', scene_example ''ch1_scene2'']
   \<and> length (snd (snd (clarify_scenes orch_env_example (stub_author ''Scene description...'') 0
            [scene_example ''ch1_scene1'', scene_example ''ch1_scene2''] ((), [])))) = 2
   \<and> dict_get (am_content (snd (last (trace (snd (phase_illustration orch_env_example
                 (stub_author ''Scene description...'') stub_illustrator story_content
                 (PStr ''children_book'') idle_agents)))))) ''scenes''
       = dict_get story_content ''illustration_scenes''"
  by (simp add: scene_needs_clarification_def scene_example_def clarify_scene_def stub_author_def
        clarification_request_def AgentMessage_init_def phase_illustration_def story_content_def
        idle_agents_def stub_illustrator_def illustration_request_def orch_env_example_def
        logged_len_def dict_get_def dict_get_default_def dict_index_def dict_set_def Let_def)

text \<open>
  C8, as amended. In the in-process illustration phase, a scene whose description is
  shorter than 50 characters fails the clarity check and, when the loop over the scenes
  completes, has caused exactly one clarification request to the writer, at its place
  among the requests for the other unclear scenes (no second round). If the writer
  responds, the description its response carries (the scene's own description if the
  response carries none) replaces the scene's description; if it does not respond, the
  scene is unchanged. The scenes so updated are the ones in the request handed to the
  illustrator, which follows the clarification requests. The new description need not
  differ from the original.
\<close>

theorem clarification_round_trip:
  assumes story: "dict_index story_result ''story'' = Inr (PDict story_map)"
    and scenes: "dict_get_default story_result ''illustration_scenes'' (PList []) = PList scenes"
    and k: "k < length scenes" "scenes ! k = PDict sc"
    and short: "map_of sc ''description'' = Some (PStr d)" "length d < 50"
    and run: "clarify_scenes env author 0 scenes (author_state ag, trace ag) = (Inr scenes', a', tr')"
  shows "scene_needs_clarification (scenes ! k) = Inr True
       \<and> tr' = trace ag @ expected_requests env 0 (take k scenes)
                 @ [(''AuthorAgent'', clarification_request env k sc)]
                 @ expected_requests env (Suc k) (drop (Suc k) scenes)
       \<and> (\<exists>a1 a2 r. author a1 (clarification_request env k sc) = (Inr r, a2)
             \<and> scenes' ! k = (case r of
                                None \<Rightarrow> PDict sc
                              | Some resp \<Rightarrow>
                                  PDict (dict_set sc ''description''
                                           (dict_get_default (am_content resp) ''description'' (PStr d)))))
       \<and> trace (snd (phase_illustration env author illustrator story_result art_style ag))
           = tr' @ [(''IllustratorAgent'',
                     illustration_request env (PList scenes')
                       (dict_get_default story_map ''characters'' (PList [])) art_style)]"
proof -
  have needs: "scene_needs_clarification (scenes ! k) = Inr True"
    using short_needs_clarification[OF short] k(2) by simp
  have split: "scenes = take k scenes @ PDict sc # drop (Suc k) scenes"
    using k by (metis id_take_nth_drop)
  have "expected_requests env 0 scenes
          = expected_requests env 0 (take k scenes)
            @ expected_requests env k (PDict sc # drop (Suc k) scenes)"
    using expected_requests_append[of env 0 "take k scenes" "PDict sc # drop (Suc k) scenes"] split k(1)
    by simp
  then have ex: "expected_requests env 0 scenes
          = expected_requests env 0 (take k scenes)
            @ [(''AuthorAgent'', clarification_request env k sc)]
            @ expected_requests env (Suc k) (drop (Suc k) scenes)"
    using needs k(2) by simp
  have tr: "tr' = trace ag @ expected_requests env 0 scenes"
    using clarify_scenes_trace[OF run] by simp
  have nth: "\<exists>a1 a2 r. author a1 (clarification_request env k sc) = (Inr r, a2)
             \<and> scenes' ! k = (case r of
                                None \<Rightarrow> PDict sc
                              | Some resp \<Rightarrow>
                                  PDict (dict_set sc ''description''
                                           (dict_get_default (am_content resp) ''description'' (PStr d))))"
    using clarify_scenes_nth[OF run k short] by simp
  show ?thesis
    using needs tr ex nth phase_illustration_trace[OF story scenes run] by simp
qed

text \<open>C8, as amended, on the stub writer's two scenes and an enhanced description that is
  new: both scenes are asked about once, and the illustrator is handed the new text.\<close>

theorem clarification_round_trip_witness:
  "dict_index story_content ''story'' = Inr (PDict [(''characters'', PList [])])
   \<and> dict_get_default story_content ''illustration_scenes'' (PList [])
       = PList [scene_example ''ch1_scene1'', scene_example ''ch1_scene2'']
   \<and> scene_needs_clarification (scene_example ''ch1_scene1'') = Inr True
   \<and> fst (clarify_scenes orch_env_example (stub_author ''A fox is standing under the old oak at dusk'') 0
            [scene_example ''ch1_scene1'', scene_example ''ch1_scene2'']
            (author_state idle_agents, trace idle_agents))
       = Inr [ PDict [ (''id'', PStr ''ch1_scene1''), (''chapter'', PInt 1),
                       (''description'', PStr ''A fox is standing under the old oak at dusk''),
                       (''characters'', PList []), (''mood'', PStr ''exciting'') ],
               PDict [ (''id'', PStr ''ch1_scene2''), (''chapter'', PInt 1),
                       (''description'', PStr ''A fox is standing under the old oak at dusk''),
                       (''characters'', PList []), (''mood'', PStr ''exciting'') ] ]
   \<and> map fst (trace (snd (phase_illustration orch_env_example
                  (stub_author ''A fox is standing under the old oak at dusk'') stub_illustrator
                  story_content (PStr ''children_book'') idle_agents)))
       = [''AuthorAgent'', ''AuthorAgent'', ''IllustratorAgent'']"
proof -
  let ?author = "stub_author ''A fox is standing under the old oak at dusk''"
  let ?scenes = "[scene_example ''ch1_scene1'', scene_example ''ch1_scene2'']"
  let ?sc = "[ (''id'', PStr ''ch1_scene1''), (''chapter'', PInt 1),
               (''description'', PStr ''Scene description...''),
               (''characters'', PList []), (''mood'', PStr ''exciting'') ]"
  let ?run = "clarify_scenes orch_env_example ?author 0 ?scenes (author_state idle_agents, trace idle_agents)"
  let ?new = "[ PDict [ (''id'', PStr ''ch1_scene1''), (''chapter'', PInt 1),
                       (''description'', PStr ''A fox is standing under the old oak at dusk''),
                       (''characters'', PList []), (''mood'', PStr ''exciting'') ],
               PDict [ (''id'', PStr ''ch1_scene2''), (''chapter'', PInt 1),
                       (''description'', PStr ''A fox is standing under the old oak at dusk''),
                       (''characters'', PList []), (''mood'', PStr ''exciting'') ] ]"
  have story: "dict_index story_content ''story'' = Inr (PDict [(''characters'', PList [])])"
    by (simp add: story_content_def dict_index_def)
  have scenes: "dict_get_default story_content ''illustration_scenes'' (PList []) = PList ?scenes"
    by (simp add: story_content_def dict_get_default_def)
  have k: "0 < length ?scenes" "?scenes ! 0 = PDict ?sc"
    by (simp_all add: scene_example_def)
  have short: "map_of ?sc ''description'' = Some (PStr ''Scene description...'')"
      "length ''Scene description...'' < 50"
    by simp_all
  have run: "?run = (Inr ?new, fst (snd ?run), snd (snd ?run))"
    by (simp add: scene_needs_clarification_def scene_example_def clarify_scene_def stub_author_def
        clarification_request_def AgentMessage_init_def idle_agents_def orch_env_example_def
        dict_get_def dict_get_default_def dict_index_def dict_set_def Let_def)
  note main = clarification_round_trip[where story_result = story_content and scenes = ?scenes
      and k = 0 and sc = ?sc and d = "''Scene description...''" and env = orch_env_example
      and author = ?author and ag = idle_agents and scenes' = ?new and a' = "fst (snd ?run)"
      and tr' = "snd (snd ?run)" and illustrator = stub_illustrator and art_style = "PStr ''children_book''",
      OF story scenes k short run]
  have needs: "scene_needs_clarification (scene_example ''ch1_scene1'') = Inr True"
    using main k(2) by simp
  have tr: "snd (snd ?run)
              = [ (''AuthorAgent'', clarification_request orch_env_example 0 ?sc),
                  (''AuthorAgent'', clarification_request orch_env_example 1
                     [ (''id'', PStr ''ch1_scene2''), (''chapter'', PInt 1),
                       (''description'', PStr ''Scene description...''),
                       (''characters'', PList []), (''mood'', PStr ''exciting'') ]) ]"
    using main
    by (simp add: idle_agents_def scene_example_def scene_needs_clarification_def dict_get_default_def)
  have names: "map fst (trace (snd (phase_illustration orch_env_example ?author stub_illustrator
                  story_content (PStr ''children_book'') idle_agents)))
       = [''AuthorAgent'', ''AuthorAgent'', ''IllustratorAgent'']"
    using main tr by simp
  have res: "fst ?run = Inr ?new"
    using run by (metis fst_conv)
  show ?thesis
    using story scenes needs res names by (intro conjI)
qed

section \<open>Message equality and correlation ids\<close>

text \<open>
  C9 as stated fails: two Message objects constructed one after the other with the same
  id are different objects, and \<^verbatim>\<open>==\<close> on them is False.
\<close>

theorem message_equality_counterexample:
  "map_option message_id (deref (snd second_object) (fst first_object)) = Some ''id-1''
   \<and> map_option message_id (deref (snd second_object) (fst second_object)) = Some ''id-1''
   \<and> \<not> message_eq (fst first_object) (fst second_object)"
  by (simp add: first_object_def second_object_def Message_new_def Message_init_def deref_def
        message_eq_def or_message_id_def)

text \<open>
  C9, as amended. Message equality is object identity, for both Message classes: a
  Message equals itself, a newly constructed Message is equal to no Message constructed
  before it, whatever their ids, and the construction leaves the earlier objects as they
  were. Equal Messages have equal ids; equal ids do not make Messages equal.
\<close>

theorem message_equality_is_identity:
  assumes "Message_new now mid sndr rcvr mtype cont cid h = (r2, h2)"
    and "r1 < length h"
    and "AgentMessage_new stamp asnd arcp acont atype g = (r4, g2)"
    and "r3 < length g"
  shows "message_eq r2 r2
       \<and> \<not> message_eq r1 r2
       \<and> deref h2 r1 = deref h r1
       \<and> deref h2 r2 = Some (Message_init now mid sndr rcvr mtype cont cid)
       \<and> message_eq r4 r4
       \<and> \<not> message_eq r3 r4
       \<and> g2 ! r3 = g ! r3
       \<and> g2 ! r4 = AgentMessage_init stamp asnd arcp acont atype
       \<and> (\<forall>x y. message_eq x y \<longrightarrow> map_option message_id (deref h2 x) = map_option message_id (deref h2 y))"
  using assms
  by (auto simp: Message_new_def AgentMessage_new_def message_eq_def deref_def nth_append)

text \<open>C9, as amended, on the two objects of the counterexample and on two Messages of
  agents/base\_agent.py built from the same arguments at the same clock reading.\<close>

theorem message_equality_is_identity_witness:
  "Message_new ''t1'' ''id-1'' ''Orchestrator'' ''AuthorService'' ''request'' [] None (snd first_object)
     = second_object
   \<and> fst first_object < length (snd first_object)
   \<and> AgentMessage_new ''100.0'' ''Orchestrator'' ''AuthorAgent'' [] ''request''
        [AgentMessage_init ''100.0'' ''Orchestrator'' ''AuthorAgent'' [] ''request'']
       = (1, [ AgentMessage_init ''100.0'' ''Orchestrator'' ''AuthorAgent'' [] ''request'',
               AgentMessage_init ''100.0'' ''Orchestrator'' ''AuthorAgent'' [] ''request'' ])
   \<and> message_eq (fst second_object) (fst second_object)
   \<and> \<not> message_eq (fst first_object) (fst second_object)
   \<and> \<not> message_eq 0 1
   \<and> deref (snd second_object) (fst first_object) = deref (snd second_object) (fst second_object)"
proof -
  have a: "Message_new ''t1'' ''id-1'' ''Orchestrator'' ''AuthorService'' ''request'' [] None (snd first_object)
             = (fst second_object, snd second_object)"
    by (simp add: second_object_def)
  have b: "fst first_object < length (snd first_object)"
    by (simp add: first_object_def Message_new_def)
  have c: "AgentMessage_new ''100.0'' ''Orchestrator'' ''AuthorAgent'' [] ''request''
        [AgentMessage_init ''100.0'' ''Orchestrator'' ''AuthorAgent'' [] ''request'']
       = (1, [ AgentMessage_init ''100.0'' ''Orchestrator'' ''AuthorAgent'' [] ''request'',
               AgentMessage_init ''100.0'' ''Orchestrator'' ''AuthorAgent'' [] ''request'' ])"
    by (simp add: AgentMessage_new_def)
  have d: "(0::nat) < length [AgentMessage_init ''100.0'' ''Orchestrator'' ''AuthorAgent'' [] ''request'']"
    by simp
  note main = message_equality_is_identity[OF a b c d]
  have e: "deref (snd second_object) (fst first_object) = deref (snd second_object) (fst second_object)"
    by (simp add: first_object_def second_object_def Message_new_def deref_def)
  show ?thesis using a b c main e by simp
qed

text \<open>
  C10 as stated fails in its last part: a caller who passes the empty string both as
  \<^verbatim>\<open>message_id\<close> and as \<^verbatim>\<open>correlation_id\<close> gets a Message whose correlation id is the empty
  string.
\<close>

theorem empty_correlation_id_counterexample:
  "correlation_id (Message_init ''t0'' [] ''Orchestrator'' ''AuthorService'' ''request'' [] (Some [])) = []"
  by (simp add: Message_init_def or_message_id_def)

text \<open>
  C10, as amended. A falsy correlation id is replaced, not only an absent one: a Message
  constructed with \<^verbatim>\<open>correlation_id\<close> None or the empty string, or rebuilt by
  \<^verbatim>\<open>from_dict\<close> from a mapping whose \<^verbatim>\<open>correlation_id\<close> entry is absent, None or the empty
  string, has its \<^verbatim>\<open>message_id\<close> as correlation id. So a Message whose \<^verbatim>\<open>message_id\<close> is not
  empty has a non-empty correlation id, and a caller cannot create a Message with a
  non-empty \<^verbatim>\<open>message_id\<close> and the empty string as correlation id.
\<close>

theorem falsy_correlation_id_replaced:
  "correlation_id (Message_init now mid sndr rcvr mtype cont None) = mid
   \<and> correlation_id (Message_init now mid sndr rcvr mtype cont (Some [])) = mid
   \<and> message_id (Message_init now mid sndr rcvr mtype cont cid) = mid
   \<and> (from_dict now data = Inr m \<and> \<not> truthy (dict_get data ''correlation_id'')
        \<longrightarrow> correlation_id m = message_id m)
   \<and> (mid \<noteq> [] \<longrightarrow> correlation_id (Message_init now mid sndr rcvr mtype cont cid) \<noteq> [])
   \<and> (from_dict now data = Inr m \<and> message_id m \<noteq> [] \<longrightarrow> correlation_id m \<noteq> [])"
  by (auto simp: Message_init_def or_message_id_def from_dict_def get_opt_str_def
           split: sum.splits pyval.splits option.splits if_splits)

text \<open>C10, as amended, on a serialized mapping whose correlation id is the empty string
  and on the constructor with None, the empty string and a given correlation id.\<close>

theorem falsy_correlation_id_replaced_witness:
  "from_dict ''t9'' serialized_example
     = Inr \<lparr> message_id = ''m7'', sender = ''Orchestrator'', receiver = ''AuthorService'',
             message_type = ''request'', content = [(''action'', PStr ''create_story'')],
             correlation_id = ''m7'', timestamp = ''t9'' \<rparr>
   \<and> \<not> truthy (dict_get serialized_example ''correlation_id'')
   \<and> ''m7'' \<noteq> []
   \<and> correlation_id (Message_init ''t0'' ''m7'' ''Orchestrator'' ''AuthorService'' ''request'' [] None) = ''m7''
   \<and> correlation_id (Message_init ''t0'' ''m7'' ''Orchestrator'' ''AuthorService'' ''request'' [] (Some [])) = ''m7''
   \<and> correlation_id (Message_init ''t0'' ''m7'' ''Orchestrator'' ''AuthorService'' ''request'' [] (Some ''c1'')) = ''c1''"
proof -
  have a: "from_dict ''t9'' serialized_example
     = Inr \<lparr> message_id = ''m7'', sender = ''Orchestrator'', receiver = ''AuthorService'',
             message_type = ''request'', content = [(''action'', PStr ''create_story'')],
             correlation_id = ''m7'', timestamp = ''t9'' \<rparr>"
    by (simp add: from_dict_def serialized_example_def index_str_def index_dict_def get_opt_str_def
          dict_index_def dict_get_def dict_get_default_def Message_init_def or_message_id_def)
  have b: "\<not> truthy (dict_get serialized_example ''correlation_id'')"
    by (simp add: serialized_example_def dict_get_def)
  have c: "correlation_id (Message_init ''t0'' ''m7'' ''Orchestrator'' ''AuthorService'' ''request'' [] (Some ''c1'')) = ''c1''"
    by (simp add: Message_init_def or_message_id_def)
  note main = falsy_correlation_id_replaced[where now = "''t0''" and mid = "''m7''"
      and sndr = "''Orchestrator''" and rcvr = "''AuthorService''" and mtype = "''request''"
      and cont = "[]" and cid = "Some ''c1''"]
  show ?thesis using a b c main by simp
qed

end
